theory Spec2Isabelle
  imports Main "HOL-Library.Sublist"
begin

section \<open>JavaScript values\<close>

text \<open>
  The values that travel through the dispatcher and the debugger agent are parsed JSON
  messages, plus \<open>undefined\<close> for an absent field or an omitted argument. Numbers are
  integers here (request ids, breakpoint numbers, frame indices); an object is the list of
  its own fields.
\<close>

datatype jsval =
    Undefined
  | Null
  | Bool bool
  | Num int
  | Str string
  | Arr "jsval list"
  | Obj "(string \<times> jsval) list"

text \<open>JavaScript's ToBoolean, as used by \<open>if (x)\<close>, \<open>!x\<close> and \<open>x || y\<close>.\<close>

fun truthy :: "jsval \<Rightarrow> bool" where
  "truthy Undefined = False"
| "truthy Null = False"
| "truthy (Bool b) = b"
| "truthy (Num n) = (n \<noteq> 0)"
| "truthy (Str s) = (s \<noteq> [])"
| "truthy (Arr xs) = True"
| "truthy (Obj fs) = True"

text \<open>\<open>a || b\<close>.\<close>

definition orElse :: "jsval \<Rightarrow> jsval \<Rightarrow> jsval" where
  "orElse a b = (if truthy a then a else b)"

text \<open>\<open>s.split(sep)\<close> for a one-character separator: never empty.\<close>

fun splitOn :: "char \<Rightarrow> string \<Rightarrow> string list" where
  "splitOn sep [] = [[]]"
| "splitOn sep (c # cs) =
     (if c = sep then [] # splitOn sep cs
      else (case splitOn sep cs of
              [] \<Rightarrow> [[c]]
            | x # xs \<Rightarrow> (c # x) # xs))"

text \<open>\<open>xs[i]\<close> on an array of strings: \<open>undefined\<close> out of range.\<close>

definition element :: "string list \<Rightarrow> nat \<Rightarrow> jsval" where
  "element xs i = (if i < length xs then Str (xs ! i) else Undefined)"

text \<open>The property key that \<open>obj[v]\<close> uses for a string or for \<open>undefined\<close>.\<close>

fun keyOf :: "jsval \<Rightarrow> string" where
  "keyOf (Str s) = s"
| "keyOf v = ''undefined''"

section \<open>The world: collaborators, effects, exceptions\<close>

text \<open>
  Every call on a collaborator (front-end channel, wire client, script registry, break
  notifier, console) is recorded, in call order, in a trace.
\<close>

datatype effect =
    SendResponse jsval jsval jsval
  | SendEvent string
  | SendLogToConsole string "jsval list"
  | ConsoleLog string "jsval list"
  | Request string jsval
  | ClearBreakpoint jsval
  | Connect
  | Close
  | ScriptsReset
  | AddScript jsval
  | SendBacktraceToFrontend jsval
  | FetchCallFrames

text \<open>
  The completion callback that \<open>handleCommand\<close> hands to a domain method is the closure
  \<open>function(error, result) { this._handleMethodResult(messageObject.id, fullMethodName,
  error, result) }\<close>: it is determined by the two values it captures.
\<close>

datatype callback = MethodResult jsval string

text \<open>
  Closures that the agent stores in a collaborator: the \<open>connect\<close> listener registered by
  \<open>enable\<close> (capturing \<open>done\<close>), and the \<open>callbackForNextBreak\<close> armed by
  \<open>setScriptSource\<close> (capturing \<open>done\<close> and the \<open>changelive\<close> response).
\<close>

datatype listener = EnableListener callback

datatype breakCallback = StepIntoCallback callback jsval

record world =
  trace :: "effect list"
  replies :: "(jsval \<times> jsval) list"
  connectListeners :: "listener list"
  callbackForNextBreak :: "breakCallback option"
  continueToLocationBreakpointId :: jsval
  isRunning :: jsval

datatype exn = TypeError string | SyntaxError | Unmodelled string

datatype outcome = Returns world | Throws exn world

type_synonym action = "world \<Rightarrow> outcome"

definition skip :: action where
  "skip w = Returns w"

definition throw :: "exn \<Rightarrow> action" where
  "throw e w = Throws e w"

definition andThen :: "action \<Rightarrow> action \<Rightarrow> action" where
  "andThen a b w = (case a w of Returns w' \<Rightarrow> b w' | Throws e w' \<Rightarrow> Throws e w')"

text \<open>A statement sequence: the first exception ends it.\<close>

fun block :: "action list \<Rightarrow> action" where
  "block [] = skip"
| "block (a # as) = andThen a (block as)"

definition emit :: "effect \<Rightarrow> action" where
  "emit e w = Returns (w\<lparr>trace := trace w @ [e]\<rparr>)"

definition worldOf :: "outcome \<Rightarrow> world" where
  "worldOf r = (case r of Returns w \<Rightarrow> w | Throws e w \<Rightarrow> w)"

text \<open>
  \<open>v.name\<close>: a TypeError on \<open>undefined\<close> and \<open>null\<close>, the field of an object, and
  \<open>undefined\<close> where there is no such field.
\<close>

definition field :: "jsval \<Rightarrow> string \<Rightarrow> jsval" where
  "field v name =
     (case v of
        Obj fs \<Rightarrow> (case map_of fs name of Some x \<Rightarrow> x | None \<Rightarrow> Undefined)
      | _ \<Rightarrow> Undefined)"

definition getProp :: "jsval \<Rightarrow> string \<Rightarrow> (jsval \<Rightarrow> action) \<Rightarrow> action" where
  "getProp v name k =
     (if v = Undefined \<or> v = Null then throw (TypeError name)
      else k (field v name))"

text \<open>
  \<open>v.split(sep)\<close>: only a string has the method; calling it on anything else is a
  TypeError.
\<close>

definition splitString :: "jsval \<Rightarrow> char \<Rightarrow> (string \<Rightarrow> string list \<Rightarrow> action) \<Rightarrow> action" where
  "splitString v sep k =
     (case v of
        Str s \<Rightarrow> k s (splitOn sep s)
      | _ \<Rightarrow> throw (TypeError ''split''))"

text \<open>
  An asynchronous call on a collaborator (\<open>request\<close>, \<open>clearBreakpoint\<close>,
  \<open>fetchCallFrames\<close>): the call is recorded, and its callback runs with the next scripted
  reply \<open>(err, result)\<close>. With no reply left, the callback never runs. Every such call in
  the source is the last statement of its function, so running the callback at the call
  keeps the order of a command's effects.
\<close>

definition asyncCall :: "effect \<Rightarrow> (jsval \<Rightarrow> jsval \<Rightarrow> action) \<Rightarrow> action" where
  "asyncCall e cb w =
     (let w1 = w\<lparr>trace := trace w @ [e]\<rparr> in
      case replies w1 of
        [] \<Rightarrow> Returns w1
      | r # rs \<Rightarrow> cb (fst r) (snd r) (w1\<lparr>replies := rs\<rparr>))"

definition request :: "string \<Rightarrow> jsval \<Rightarrow> (jsval \<Rightarrow> jsval \<Rightarrow> action) \<Rightarrow> action" where
  "request name args cb = asyncCall (Request name args) cb"

definition clearBreakpoint :: "jsval \<Rightarrow> (jsval \<Rightarrow> jsval \<Rightarrow> action) \<Rightarrow> action" where
  "clearBreakpoint number cb = asyncCall (ClearBreakpoint number) cb"

definition fetchCallFrames :: "(jsval \<Rightarrow> jsval \<Rightarrow> action) \<Rightarrow> action" where
  "fetchCallFrames cb = asyncCall FetchCallFrames cb"

definition consoleLog :: "string \<Rightarrow> jsval list \<Rightarrow> action" where
  "consoleLog fmt args = emit (ConsoleLog fmt args)"

definition sendResponse :: "jsval \<Rightarrow> jsval \<Rightarrow> jsval \<Rightarrow> action" where
  "sendResponse requestId error result = emit (SendResponse requestId error result)"

definition sendEvent :: "string \<Rightarrow> action" where
  "sendEvent name = emit (SendEvent name)"

text \<open>The message of \<open>sendLogToConsole\<close> is the concatenation of the listed parts.\<close>

definition sendLogToConsole :: "string \<Rightarrow> jsval list \<Rightarrow> action" where
  "sendLogToConsole level parts = emit (SendLogToConsole level parts)"

definition sendBacktraceToFrontend :: "jsval \<Rightarrow> action" where
  "sendBacktraceToFrontend frameFilter = emit (SendBacktraceToFrontend frameFilter)"

section \<open>FrontendCommandHandler: the completion callback\<close>

definition handleMethodResult :: "jsval \<Rightarrow> string \<Rightarrow> jsval \<Rightarrow> jsval \<Rightarrow> action" where
  "handleMethodResult requestId fullMethodName error result =
     (let response = Undefined in
      if \<not> truthy requestId then
        (if response \<noteq> Undefined
         then consoleLog (''Warning: discarded result of '' @ fullMethodName) []
         else skip)
      else sendResponse requestId error result)"

text \<open>Calling \<open>done(error, result)\<close>.\<close>

fun call :: "callback \<Rightarrow> jsval \<Rightarrow> jsval \<Rightarrow> action" where
  "call (MethodResult requestId fullMethodName) error result =
     handleMethodResult requestId fullMethodName error result"

section \<open>The async library: waterfall and eachSeries\<close>

text \<open>
  A callback parameter holds whatever the caller passed: a function, or (when an internal
  helper is reached through the dispatcher) a plain value, and calling a plain value is a
  TypeError.
\<close>

datatype callee = Callable "jsval \<Rightarrow> action" | NotCallable jsval

fun invoke :: "callee \<Rightarrow> jsval \<Rightarrow> action" where
  "invoke (Callable f) err = f err"
| "invoke (NotCallable v) err = throw (TypeError ''not a function'')"

text \<open>\<open>callback = callback || function () {}\<close>.\<close>

fun orNoop :: "callee \<Rightarrow> callee" where
  "orNoop (Callable f) = Callable f"
| "orNoop (NotCallable v) = (if truthy v then NotCallable v else Callable (\<lambda>err. skip))"

text \<open>
  The elements that \<open>eachSeries\<close> walks, from \<open>arr.length\<close> and \<open>arr[i]\<close>: reading
  \<open>length\<close> of \<open>undefined\<close> or \<open>null\<close> is a TypeError, a value without a length has no
  elements, a string has its characters. An object that carries a \<open>length\<close> field of its
  own is outside the model.
\<close>

definition elements :: "jsval \<Rightarrow> (jsval list \<Rightarrow> action) \<Rightarrow> action" where
  "elements arr k =
     (case arr of
        Undefined \<Rightarrow> throw (TypeError ''length'')
      | Null \<Rightarrow> throw (TypeError ''length'')
      | Arr xs \<Rightarrow> k xs
      | Str s \<Rightarrow> k (map (\<lambda>c. Str [c]) s)
      | Obj fs \<Rightarrow> (case map_of fs ''length'' of
                    None \<Rightarrow> k []
                  | Some n \<Rightarrow> if truthy n then throw (Unmodelled ''array-like object'') else k [])
      | _ \<Rightarrow> k [])"

text \<open>
  \<open>async.eachSeries(arr, iterator, callback)\<close>: the iterator runs on one element at a
  time, the next one only from the completion callback of the previous one; the first
  error ends the series and goes to \<open>callback\<close>.
\<close>

fun iterate :: "jsval list \<Rightarrow> (jsval \<Rightarrow> (jsval \<Rightarrow> action) \<Rightarrow> action) \<Rightarrow> callee \<Rightarrow> action" where
  "iterate [] iterator callback = skip"
| "iterate (x # xs) iterator callback =
     iterator x (\<lambda>err.
       if truthy err then invoke callback err
       else if xs = [] then invoke callback Null
       else iterate xs iterator callback)"

definition eachSeries :: "jsval \<Rightarrow> (jsval \<Rightarrow> (jsval \<Rightarrow> action) \<Rightarrow> action) \<Rightarrow> callee \<Rightarrow> action" where
  "eachSeries arr iterator callback =
     elements arr (\<lambda>xs.
       if xs = [] then invoke (orNoop callback) Undefined
       else iterate xs iterator (orNoop callback))"

text \<open>
  \<open>async.waterfall(tasks)\<close> with no final callback: each task gets the callback that
  starts the next task; an error ends the waterfall and is dropped, since there is no
  final callback to receive it. The tasks of this program pass no results on.
\<close>

fun waterfall :: "(callee \<Rightarrow> action) list \<Rightarrow> action" where
  "waterfall [] = skip"
| "waterfall (task # tasks) =
     task (Callable (\<lambda>err. if truthy err then skip else waterfall tasks))"

text \<open>\<open>result.forEach(f)\<close>: only an array has the method.\<close>

definition forEach :: "jsval \<Rightarrow> (jsval \<Rightarrow> action) \<Rightarrow> action" where
  "forEach v f =
     (case v of
        Arr xs \<Rightarrow> block (map f xs)
      | _ \<Rightarrow> throw (TypeError ''forEach''))"

section \<open>DebuggerAgent\<close>

text \<open>
  The functions of \<open>convert.js\<close> are not part of the sources at hand; the agent takes
  them, and the JavaScript built-ins \<open>Number(v)\<close>, \<open>v == s\<close> and \<open>v.toString()\<close>, as
  parameters.
\<close>

record convert =
  inspectorScriptIdToV8Id :: "jsval \<Rightarrow> jsval"
  inspectorUrlToV8Name :: "jsval \<Rightarrow> jsval"
  v8LocationToInspectorLocation :: "jsval \<Rightarrow> jsval"
  v8ErrorToInspectorError :: "jsval \<Rightarrow> jsval"
  v8ResultToInspectorResult :: "jsval \<Rightarrow> jsval"
  v8FunctionLookupToFunctionDetails :: "jsval \<Rightarrow> jsval"
  jsNumber :: "jsval \<Rightarrow> jsval"
  jsLooseEquals :: "jsval \<Rightarrow> string \<Rightarrow> bool"
  jsToString :: "jsval \<Rightarrow> string"

definition canSetScriptSource :: "jsval \<Rightarrow> callback \<Rightarrow> action" where
  "canSetScriptSource params done = call done Null (Obj [(''result'', Bool True)])"

text \<open>\<open>this._debuggerClient.on('connect', listener)\<close>: the listener is added, and stays.\<close>

definition onConnect :: "listener \<Rightarrow> action" where
  "onConnect l w = Returns (w\<lparr>connectListeners := connectListeners w @ [l]\<rparr>)"

definition enable :: "jsval \<Rightarrow> callback \<Rightarrow> action" where
  "enable params done =
     block [onConnect (EnableListener done),
            emit Connect]"

definition removeOneBreakpoint :: "jsval \<Rightarrow> (jsval \<Rightarrow> action) \<Rightarrow> action" where
  "removeOneBreakpoint bp next =
     getProp bp ''number'' (\<lambda>number.
       clearBreakpoint number (\<lambda>error response.
         block [if truthy error
                then consoleLog ''Warning: cannot remove old breakpoint %d. %s'' [number, error]
                else skip,
                next Undefined]))"

definition removeAllBreakpoints :: "callee \<Rightarrow> action" where
  "removeAllBreakpoints done =
     request ''listbreakpoints'' (Obj []) (\<lambda>err response.
       if truthy err then
         block [consoleLog ''Warning: cannot remove old breakpoints. %s'' [err],
                invoke done Undefined]
       else
         getProp response ''breakpoints'' (\<lambda>breakpoints.
           eachSeries breakpoints removeOneBreakpoint done))"

definition reloadScripts :: "callee \<Rightarrow> action" where
  "reloadScripts done =
     block [emit ScriptsReset,
            request ''scripts'' (Obj [(''includeSource'', Bool False), (''types'', Num 4)])
              (\<lambda>err result.
                 if truthy err then invoke done err
                 else block [forEach result (\<lambda>script. emit (AddScript script)),
                             invoke done Undefined])]"

definition sendBacktraceIfPaused :: "callee \<Rightarrow> action" where
  "sendBacktraceIfPaused done w =
     block [if \<not> truthy (isRunning w) then sendBacktraceToFrontend Null else skip,
            invoke done Undefined] w"

definition onDebuggerConnect :: action where
  "onDebuggerConnect =
     waterfall [removeAllBreakpoints,
                reloadScripts,
                sendBacktraceIfPaused]"

definition disable :: "jsval \<Rightarrow> callback \<Rightarrow> action" where
  "disable params done =
     block [emit Close,
            call done Undefined Undefined]"

definition sendContinue :: "jsval \<Rightarrow> callback \<Rightarrow> action" where
  "sendContinue stepAction done =
     (let args = (if truthy stepAction then Obj [(''stepaction'', stepAction)] else Undefined) in
      request ''continue'' args (\<lambda>error result.
        block [call done error Undefined,
               if \<not> truthy error then sendEvent ''Debugger.resumed'' else skip]))"

definition resume :: "jsval \<Rightarrow> callback \<Rightarrow> action" where
  "resume params done = sendContinue Undefined done"

definition pause :: "jsval \<Rightarrow> callback \<Rightarrow> action" where
  "pause params done =
     request ''suspend'' (Obj []) (\<lambda>error result.
       block [call done error Undefined,
              if \<not> truthy error then sendBacktraceToFrontend Null else skip])"

definition stepOver :: "jsval \<Rightarrow> callback \<Rightarrow> action" where
  "stepOver params done = sendContinue (Str ''next'') done"

definition stepInto :: "jsval \<Rightarrow> callback \<Rightarrow> action" where
  "stepInto params done = sendContinue (Str ''in'') done"

definition stepOut :: "jsval \<Rightarrow> callback \<Rightarrow> action" where
  "stepOut params done = sendContinue (Str ''out'') done"

definition setContinueToLocationBreakpointId :: "jsval \<Rightarrow> action" where
  "setContinueToLocationBreakpointId v w = Returns (w\<lparr>continueToLocationBreakpointId := v\<rparr>)"

definition continueToLocation :: "convert \<Rightarrow> jsval \<Rightarrow> callback \<Rightarrow> action" where
  "continueToLocation c params done =
     getProp params ''location'' (\<lambda>location.
     getProp location ''scriptId'' (\<lambda>scriptId.
     getProp location ''lineNumber'' (\<lambda>lineNumber.
     getProp location ''columnNumber'' (\<lambda>columnNumber.
       request ''setbreakpoint''
         (Obj [(''type'', Str ''scriptId''),
               (''target'', inspectorScriptIdToV8Id c scriptId),
               (''line'', lineNumber),
               (''column'', columnNumber)])
         (\<lambda>error response.
            if error \<noteq> Null \<and> error \<noteq> Undefined then call done error Undefined
            else
              getProp response ''breakpoint'' (\<lambda>breakpoint.
                block [setContinueToLocationBreakpointId breakpoint,
                       request ''continue'' Undefined (\<lambda>error response.
                         call done error Undefined)]))))))"

text \<open>\<open>v[0]\<close>.\<close>

definition getFirst :: "jsval \<Rightarrow> (jsval \<Rightarrow> action) \<Rightarrow> action" where
  "getFirst v k =
     (case v of
        Undefined \<Rightarrow> throw (TypeError ''0'')
      | Null \<Rightarrow> throw (TypeError ''0'')
      | Arr xs \<Rightarrow> k (case xs of [] \<Rightarrow> Undefined | x # rest \<Rightarrow> x)
      | Str s \<Rightarrow> k (case s of [] \<Rightarrow> Undefined | ch # rest \<Rightarrow> Str [ch])
      | Obj fs \<Rightarrow> k (case map_of fs ''0'' of Some x \<Rightarrow> x | None \<Rightarrow> Undefined)
      | _ \<Rightarrow> k Undefined)"

definition getScriptSource :: "jsval \<Rightarrow> callback \<Rightarrow> action" where
  "getScriptSource params done =
     getProp params ''scriptId'' (\<lambda>scriptId.
       request ''scripts''
         (Obj [(''includeSource'', Bool True), (''types'', Num 4), (''ids'', Arr [scriptId])])
         (\<lambda>err result.
            if truthy err then call done err Undefined
            else
              getFirst result (\<lambda>script.
              getProp script ''source'' (\<lambda>source.
                call done Null (Obj [(''scriptSource'', source)])))))"

text \<open>
  The three inner functions of \<open>setScriptSource\<close>; \<open>done\<close> and the \<open>changelive\<close>
  response are the variables they close over.
\<close>

definition setScriptSource_sendResponse :: "callback \<Rightarrow> jsval \<Rightarrow> jsval \<Rightarrow> action" where
  "setScriptSource_sendResponse done response callframes =
     getProp response ''result'' (\<lambda>result.
       call done Null
         (Obj [(''callFrames'', orElse callframes (Arr [])),
               (''result'', result)]))"

definition sendResponseWithCallStack :: "callback \<Rightarrow> jsval \<Rightarrow> action" where
  "sendResponseWithCallStack done response =
     fetchCallFrames (\<lambda>err frames.
       if truthy err then
         block [sendLogToConsole ''error''
                  [Str ''Cannot update stack trace after a script changed: '', err],
                setScriptSource_sendResponse done response (Arr [])]
       else setScriptSource_sendResponse done response frames)"

definition setCallbackForNextBreak :: "breakCallback \<Rightarrow> action" where
  "setCallbackForNextBreak cb w = Returns (w\<lparr>callbackForNextBreak := Some cb\<rparr>)"

definition stepIntoAndSendResponse :: "callback \<Rightarrow> jsval \<Rightarrow> action" where
  "stepIntoAndSendResponse done response =
     block [setCallbackForNextBreak (StepIntoCallback done response),
            request ''continue'' (Obj [(''stepAction'', Str ''in'')]) (\<lambda>err result.
              if truthy err then
                block [sendLogToConsole ''error''
                         [Str ''Cannot execute step-into after a script changed: '', err,
                          Str [CHR 0x0A],
                          Str ''Please perform step-into yourself from the GUI.''],
                       sendResponseWithCallStack done response]
              else skip)]"

definition setScriptSource :: "convert \<Rightarrow> jsval \<Rightarrow> callback \<Rightarrow> action" where
  "setScriptSource c params done =
     getProp params ''scriptId'' (\<lambda>scriptId.
     getProp params ''scriptSource'' (\<lambda>scriptSource.
       request ''changelive''
         (Obj [(''script_id'', inspectorScriptIdToV8Id c scriptId),
               (''new_source'', scriptSource),
               (''preview_only'', Bool False)])
         (\<lambda>err response.
            if truthy err then call done err Undefined
            else
              getProp response ''result'' (\<lambda>result.
              getProp result ''stack_update_needs_step_in'' (\<lambda>needsStepIn.
                if truthy needsStepIn then stepIntoAndSendResponse done response
                else
                  getProp result ''stack_modified'' (\<lambda>stackModified.
                    if truthy stackModified then sendResponseWithCallStack done response
                    else setScriptSource_sendResponse done response Undefined))))))"

text \<open>
  The body of the stored \<open>callbackForNextBreak\<close> closure,
  \<open>function(data) { sendResponseWithCallStack(); }\<close>.
\<close>

fun runBreakCallback :: "breakCallback \<Rightarrow> jsval \<Rightarrow> action" where
  "runBreakCallback (StepIntoCallback done response) data =
     sendResponseWithCallStack done response"

definition setPauseOnExceptions :: "convert \<Rightarrow> jsval \<Rightarrow> callback \<Rightarrow> action" where
  "setPauseOnExceptions c params done =
     getProp params ''state'' (\<lambda>state.
       eachSeries
         (Arr [Obj [(''type'', Str ''all''), (''enabled'', Bool (jsLooseEquals c state ''all''))],
               Obj [(''type'', Str ''uncaught''),
                    (''enabled'', Bool (jsLooseEquals c state ''uncaught''))]])
         (\<lambda>arg next. request ''setexceptionbreak'' arg (\<lambda>err result. next err))
         (Callable (\<lambda>err. call done err Undefined)))"

text \<open>\<open>v.toString()\<close> and \<open>v.map(f)\<close> as method calls: a TypeError where there is no such method.\<close>

definition toStringOf :: "convert \<Rightarrow> jsval \<Rightarrow> (jsval \<Rightarrow> action) \<Rightarrow> action" where
  "toStringOf c v k =
     (case v of
        Undefined \<Rightarrow> throw (TypeError ''toString'')
      | Null \<Rightarrow> throw (TypeError ''toString'')
      | _ \<Rightarrow> k (Str (jsToString c v)))"

definition mapArray :: "jsval \<Rightarrow> (jsval \<Rightarrow> jsval) \<Rightarrow> (jsval \<Rightarrow> action) \<Rightarrow> action" where
  "mapArray v f k =
     (case v of
        Arr xs \<Rightarrow> k (Arr (map f xs))
      | _ \<Rightarrow> throw (TypeError ''map''))"

definition setBreakpointByUrl :: "convert \<Rightarrow> jsval \<Rightarrow> callback \<Rightarrow> action" where
  "setBreakpointByUrl c params done =
     getProp params ''urlRegex'' (\<lambda>urlRegex.
       if urlRegex \<noteq> Undefined then
         call done (Str ''Error: setBreakpointByUrl using urlRegex is not implemented.'') Undefined
       else
         getProp params ''url'' (\<lambda>url.
         getProp params ''lineNumber'' (\<lambda>lineNumber.
         getProp params ''columnNumber'' (\<lambda>columnNumber.
         getProp params ''condition'' (\<lambda>condition.
           request ''setbreakpoint''
             (Obj [(''type'', Str ''script''),
                   (''target'', inspectorUrlToV8Name c url),
                   (''line'', lineNumber),
                   (''column'', columnNumber),
                   (''condition'', condition)])
             (\<lambda>error response.
                if error \<noteq> Null \<and> error \<noteq> Undefined then call done error Undefined
                else
                  getProp response ''breakpoint'' (\<lambda>breakpoint.
                  toStringOf c breakpoint (\<lambda>breakpointId.
                  getProp response ''actual_locations'' (\<lambda>actualLocations.
                  mapArray actualLocations (v8LocationToInspectorLocation c) (\<lambda>locations.
                    call done Null
                      (Obj [(''breakpointId'', breakpointId),
                            (''locations'', locations)])))))))))))"

definition removeBreakpoint :: "jsval \<Rightarrow> callback \<Rightarrow> action" where
  "removeBreakpoint params done =
     getProp params ''breakpointId'' (\<lambda>breakpointId.
       clearBreakpoint breakpointId (\<lambda>error response.
         call done error Null))"

definition setBreakpointsActive :: "jsval \<Rightarrow> callback \<Rightarrow> action" where
  "setBreakpointsActive params done =
     request ''listbreakpoints'' (Obj []) (\<lambda>error response.
       if truthy error then call done error Undefined
       else
         getProp response ''breakpoints'' (\<lambda>breakpoints.
           eachSeries breakpoints
             (\<lambda>bp next.
                getProp bp ''number'' (\<lambda>number.
                getProp params ''active'' (\<lambda>active.
                  request ''changebreakpoint''
                    (Obj [(''breakpoint'', number), (''enabled'', active)])
                    (\<lambda>err result. next err))))
             (Callable (\<lambda>err. call done err Undefined))))"

definition setOverlayMessage :: "jsval \<Rightarrow> callback \<Rightarrow> action" where
  "setOverlayMessage params done = call done Undefined Undefined"

definition evaluateOnCallFrame :: "convert \<Rightarrow> jsval \<Rightarrow> callback \<Rightarrow> action" where
  "evaluateOnCallFrame c params done =
     getProp params ''expression'' (\<lambda>expression.
     getProp params ''callFrameId'' (\<lambda>callFrameId.
       (let frame = jsNumber c callFrameId in
        request ''evaluate'' (Obj [(''expression'', expression), (''frame'', frame)])
          (\<lambda>err result.
             (let err = (if truthy err then v8ErrorToInspectorError c err else err) in
              call done Null
                (Obj [(''result'', if truthy err then err else v8ResultToInspectorResult c result),
                      (''wasThrown'', Bool (truthy err))]))))))"

definition getFunctionDetails :: "convert \<Rightarrow> jsval \<Rightarrow> callback \<Rightarrow> action" where
  "getFunctionDetails c params done =
     getProp params ''functionId'' (\<lambda>handle.
       request ''lookup'' (Obj [(''handles'', Arr [handle]), (''includeSource'', Bool False)])
         (\<lambda>error responseBody.
            if truthy error then call done error Undefined
            else
              getProp responseBody (jsToString c handle) (\<lambda>details.
                call done Null (v8FunctionLookupToFunctionDetails c details))))"

text \<open>
  The properties a DebuggerAgent has from its constructor and its prototype object: a
  function of the prototype, or one of the four collaborator references the constructor
  stores. The dispatcher calls a function with \<open>(params, callback)\<close>, whatever parameters
  the function declares: an internal helper that declares \<open>(done)\<close> gets \<open>params\<close> as its
  \<open>done\<close>. What \<open>agent[name]\<close> finds beyond these, on \<open>Object.prototype\<close>, is
  \<open>objectPrototype\<close> below; \<open>handleCommand\<close> looks there when the agent has no such
  property.
\<close>

datatype property = Function "jsval \<Rightarrow> callback \<Rightarrow> action" | Collaborator

definition DebuggerAgent :: "convert \<Rightarrow> string \<rightharpoonup> property" where
  "DebuggerAgent c = map_of
     [(''_frontendClient'', Collaborator),
      (''_debuggerClient'', Collaborator),
      (''_breakEventHandler'', Collaborator),
      (''_scriptManager'', Collaborator),
      (''canSetScriptSource'', Function canSetScriptSource),
      (''enable'', Function enable),
      (''_onDebuggerConnect'', Function (\<lambda>params done. onDebuggerConnect)),
      (''_removeAllBreakpoints'', Function (\<lambda>params done. removeAllBreakpoints (NotCallable params))),
      (''_reloadScripts'', Function (\<lambda>params done. reloadScripts (NotCallable params))),
      (''_sendBacktraceIfPaused'', Function (\<lambda>params done. sendBacktraceIfPaused (NotCallable params))),
      (''disable'', Function disable),
      (''resume'', Function resume),
      (''_sendContinue'', Function sendContinue),
      (''pause'', Function pause),
      (''stepOver'', Function stepOver),
      (''stepInto'', Function stepInto),
      (''stepOut'', Function stepOut),
      (''continueToLocation'', Function (continueToLocation c)),
      (''getScriptSource'', Function getScriptSource),
      (''setScriptSource'', Function (setScriptSource c)),
      (''setPauseOnExceptions'', Function (setPauseOnExceptions c)),
      (''setBreakpointByUrl'', Function (setBreakpointByUrl c)),
      (''removeBreakpoint'', Function removeBreakpoint),
      (''setBreakpointsActive'', Function setBreakpointsActive),
      (''setOverlayMessage'', Function setOverlayMessage),
      (''evaluateOnCallFrame'', Function (evaluateOnCallFrame c)),
      (''getFunctionDetails'', Function (getFunctionDetails c))]"

text \<open>
  The wire client emits \<open>connect\<close>: the registered listener runs. The listener of
  \<open>enable\<close> is \<open>function() { done(); this._onDebuggerConnect(); }\<close>. With two or more
  listeners the program answers every listener before any bootstrap starts, since
  \<open>async.waterfall\<close> defers its tasks, and then interleaves the bootstraps; that is outside
  the model.
\<close>

fun runListener :: "listener \<Rightarrow> action" where
  "runListener (EnableListener done) =
     block [call done Undefined Undefined,
            onDebuggerConnect]"

definition emitConnect :: action where
  "emitConnect w =
     (case connectListeners w of
        [] \<Rightarrow> skip w
      | [l] \<Rightarrow> runListener l w
      | _ \<Rightarrow> throw (Unmodelled ''several connect listeners'') w)"

section \<open>FrontendCommandHandler\<close>

text \<open>
  The two registries are plain objects used as dictionaries, and a method is looked up on
  an agent by property name. Where the object has no property of its own under a name,
  the lookup goes on to \<open>Object.prototype\<close>, which holds:
  \<^item> functions that, called with \<open>(params, callback)\<close>, have no effect and never call the
    callback;
  \<^item> functions that turn \<open>params\<close> into a property name or define an accessor on the
    object, whose calls are outside the model;
  \<^item> \<open>__proto__\<close>, an object.
  All of them are truthy and none has a \<open>result\<close> property.
\<close>

datatype builtin = Quiet | NotModelled | Prototype

definition objectPrototype :: "string \<rightharpoonup> builtin" where
  "objectPrototype = map_of
     [(''constructor'', Quiet),
      (''toString'', Quiet),
      (''toLocaleString'', Quiet),
      (''valueOf'', Quiet),
      (''isPrototypeOf'', Quiet),
      (''hasOwnProperty'', NotModelled),
      (''propertyIsEnumerable'', NotModelled),
      (''__defineGetter__'', NotModelled),
      (''__defineSetter__'', NotModelled),
      (''__lookupGetter__'', NotModelled),
      (''__lookupSetter__'', NotModelled),
      (''__proto__'', Prototype)]"

type_synonym agent = "string \<rightharpoonup> property"

record handler =
  agents :: "string \<rightharpoonup> agent"
  specialCommands :: "string \<rightharpoonup> jsval"

definition registerAgent :: "string \<Rightarrow> agent \<Rightarrow> handler \<Rightarrow> handler" where
  "registerAgent name agent this = this\<lparr>agents := (agents this)(name \<mapsto> agent)\<rparr>"

fun registerNoopCommands :: "string list \<Rightarrow> handler \<Rightarrow> handler" where
  "registerNoopCommands [] this = this"
| "registerNoopCommands (fullMethodName # rest) this =
     registerNoopCommands rest
       (this\<lparr>specialCommands := (specialCommands this)(fullMethodName \<mapsto> Obj [])\<rparr>)"

definition registerQuery :: "string \<Rightarrow> jsval \<Rightarrow> handler \<Rightarrow> handler" where
  "registerQuery fullMethodName result this =
     this\<lparr>specialCommands := (specialCommands this)(fullMethodName \<mapsto> Obj [(''result'', result)])\<rparr>"

text \<open>
  \<open>RuntimeAgent\<close> and \<open>PageAgent\<close> are not part of the sources at hand: the registry takes
  them as parameters.
\<close>

definition initializeRegistry :: "convert \<Rightarrow> agent \<Rightarrow> agent \<Rightarrow> handler \<Rightarrow> handler" where
  "initializeRegistry c runtimeAgent pageAgent this =
     (registerQuery ''Worker.canInspectWorkers'' (Obj [(''result'', Bool False)])
     (registerQuery ''CSS.getSupportedCSSProperties'' (Obj [(''cssProperties'', Arr [])])
     (registerNoopCommands
        [''Network.enable'',
         ''Console.enable'',
         ''Database.enable'',
         ''DOMStorage.enable'',
         ''DOM.hideHighlight'',
         ''Inspector.enable'',
         ''Profiler.enable'',
         ''CSS.enable'']
     (registerAgent ''Page'' pageAgent
     (registerAgent ''Runtime'' runtimeAgent
     (registerAgent ''Debugger'' (DebuggerAgent c) this))))))"

definition FrontendCommandHandler :: "convert \<Rightarrow> agent \<Rightarrow> agent \<Rightarrow> handler" where
  "FrontendCommandHandler c runtimeAgent pageAgent =
     initializeRegistry c runtimeAgent pageAgent
       \<lparr>agents = Map.empty, specialCommands = Map.empty\<rparr>"

text \<open>
  In \<open>handleCommand\<close>, an inherited member found in \<open>_specialCommands\<close> passes the test
  and has no \<open>result\<close>: it stands here as the empty object. An inherited member found
  in \<open>_agents\<close> would be taken for an agent; what is then looked up on it and called is
  outside the model.
\<close>

definition handleCommand :: "handler \<Rightarrow> jsval \<Rightarrow> action" where
  "handleCommand this messageObject =
     getProp messageObject ''method'' (\<lambda>method.
     splitString method (CHR ''.'') (\<lambda>fullMethodName domainAndMethod.
       (let domainName = element domainAndMethod 0;
            methodName = element domainAndMethod 1;
            special = (case specialCommands this fullMethodName of
                         Some entry \<Rightarrow> entry
                       | None \<Rightarrow>
                          (case objectPrototype fullMethodName of
                             Some inherited \<Rightarrow> Obj []
                           | None \<Rightarrow> Undefined))
        in if truthy special then
             getProp messageObject ''id'' (\<lambda>requestId.
             getProp special ''result'' (\<lambda>result.
               handleMethodResult requestId fullMethodName Null result))
           else
             (case agents this (keyOf domainName) of
                None \<Rightarrow>
                  (case objectPrototype (keyOf domainName) of
                     Some inherited \<Rightarrow> throw (Unmodelled ''inherited member as agent'')
                   | None \<Rightarrow>
                       consoleLog ''Received request for an unknown domain %s: %s''
                         [domainName, Str fullMethodName])
              | Some agent \<Rightarrow>
                 (case agent (keyOf methodName) of
                    Some (Function method) \<Rightarrow>
                      getProp messageObject ''params'' (\<lambda>params.
                      getProp messageObject ''id'' (\<lambda>requestId.
                        method params (MethodResult requestId fullMethodName)))
                  | Some Collaborator \<Rightarrow>
                      consoleLog ''Received request for an unknown method %s: %s''
                        [methodName, Str fullMethodName]
                  | None \<Rightarrow>
                     (case objectPrototype (keyOf methodName) of
                        Some Quiet \<Rightarrow> skip
                      | Some NotModelled \<Rightarrow> throw (Unmodelled ''inherited function'')
                      | _ \<Rightarrow>
                          consoleLog ''Received request for an unknown method %s: %s''
                            [methodName, Str fullMethodName]))))))"

text \<open>\<open>JSON.parse\<close> is a parameter: \<open>None\<close> where it throws a SyntaxError.\<close>

definition handleFrontendMessage :: "(string \<Rightarrow> jsval option) \<Rightarrow> handler \<Rightarrow> string \<Rightarrow> action" where
  "handleFrontendMessage parse this message =
     (case parse message of
        None \<Rightarrow> throw SyntaxError
      | Some command \<Rightarrow> handleCommand this command)"

section \<open>Observations on a trace, and concrete inputs\<close>

text \<open>The responses in a trace that carry a given request id.\<close>

fun isResponseTo :: "jsval \<Rightarrow> effect \<Rightarrow> bool" where
  "isResponseTo requestId (SendResponse i error result) = (i = requestId)"
| "isResponseTo requestId e = False"

definition responsesTo :: "jsval \<Rightarrow> effect list \<Rightarrow> effect list" where
  "responsesTo requestId tr = filter (isResponseTo requestId) tr"

fun isConsoleLog :: "effect \<Rightarrow> bool" where
  "isConsoleLog (ConsoleLog fmt args) = True"
| "isConsoleLog e = False"

text \<open>\<open>a\<close> occurs in the trace before the first \<open>b\<close>.\<close>

definition occursBefore :: "effect \<Rightarrow> effect \<Rightarrow> effect list \<Rightarrow> bool" where
  "occursBefore a b tr = (a \<in> set (takeWhile (\<lambda>e. e \<noteq> b) tr))"

fun isClearBreakpoint :: "effect \<Rightarrow> bool" where
  "isClearBreakpoint (ClearBreakpoint number) = True"
| "isClearBreakpoint e = False"

text \<open>
  The effects expected of the serial removal of the breakpoints \<open>bps\<close> when the wire client
  answers the clear requests with \<open>rs\<close>, in order: one clear request per answered
  breakpoint, followed by a warning where the answer is an error.
\<close>

fun clearEffects :: "jsval list \<Rightarrow> (jsval \<times> jsval) list \<Rightarrow> effect list" where
  "clearEffects (bp # bps) (r # rs) =
     ClearBreakpoint (field bp ''number'')
     # (if truthy (fst r)
        then [ConsoleLog ''Warning: cannot remove old breakpoint %d. %s''
                [field bp ''number'', fst r]]
        else [])
     @ clearEffects bps rs"
| "clearEffects bps rs = []"

text \<open>The script list request of \<open>_reloadScripts\<close>.\<close>

definition scriptsRequest :: effect where
  "scriptsRequest =
     Request ''scripts'' (Obj [(''includeSource'', Bool False), (''types'', Num 4)])"

text \<open>
  An action keeps the \<open>connect\<close> listeners when it leaves the listener list of the wire
  client as it found it, whether it returns or throws.
\<close>

definition keepsListeners :: "action \<Rightarrow> bool" where
  "keepsListeners a = (\<forall>w. connectListeners (worldOf (a w)) = connectListeners w)"

definition keepsCallee :: "callee \<Rightarrow> bool" where
  "keepsCallee c = (\<forall>err. keepsListeners (invoke c err))"

text \<open>
  Two properties of an action, for a request id. It is silent when a run that returns has
  sent no response carrying the id and has consumed no reply. It answers once when a run
  that returns with a scripted reply to spare has sent exactly one response carrying the
  id. Replies are consumed in order and never added, and a call that finds none leaves
  none: a run that ends with a reply to spare has had every one of its calls answered.
\<close>

definition silent :: "jsval \<Rightarrow> action \<Rightarrow> bool" where
  "silent requestId a =
     (\<forall>w w'. a w = Returns w' \<longrightarrow>
        responsesTo requestId (trace w') = responsesTo requestId (trace w)
        \<and> replies w' = replies w)"

definition answersOnce :: "jsval \<Rightarrow> action \<Rightarrow> bool" where
  "answersOnce requestId a =
     (\<forall>w w'. a w = Returns w' \<longrightarrow> replies w' \<noteq> [] \<longrightarrow>
        length (responsesTo requestId (trace w')) =
        length (responsesTo requestId (trace w)) + 1)"

text \<open>
  The methods of the DebuggerAgent that call \<open>done\<close> on every path of their own run:
  all the methods the front end calls, except \<open>enable\<close>, which answers from the connect
  listener, and \<open>setScriptSource\<close>, which may leave its answer to the next pause.
\<close>

definition answeringMethods :: "string list" where
  "answeringMethods =
     [''canSetScriptSource'', ''disable'', ''resume'', ''pause'', ''stepOver'', ''stepInto'',
      ''stepOut'', ''continueToLocation'', ''getScriptSource'', ''setPauseOnExceptions'',
      ''setBreakpointByUrl'', ''removeBreakpoint'', ''setBreakpointsActive'',
      ''setOverlayMessage'', ''evaluateOnCallFrame'', ''getFunctionDetails'']"

text \<open>
  A converter set in the shape of \<open>convert.js\<close> (ids and names pass through, an error
  message is wrapped in an object), a world with no reply scripted, and a handler built
  by the constructor with empty Runtime and Page agents.
\<close>

definition exampleConvert :: convert where
  "exampleConvert =
     \<lparr>inspectorScriptIdToV8Id = (\<lambda>v. v),
      inspectorUrlToV8Name = (\<lambda>v. v),
      v8LocationToInspectorLocation = (\<lambda>v. v),
      v8ErrorToInspectorError =
        (\<lambda>message. Obj [(''type'', Str ''object''), (''objectId'', Str ''ERROR''),
                         (''description'', message)]),
      v8ResultToInspectorResult = (\<lambda>v. v),
      v8FunctionLookupToFunctionDetails = (\<lambda>v. v),
      jsNumber = (\<lambda>v. v),
      jsLooseEquals = (\<lambda>v s. v = Str s),
      jsToString = (\<lambda>v. case v of Str s \<Rightarrow> s | _ \<Rightarrow> [])\<rparr>"

definition quietWorld :: world where
  "quietWorld =
     \<lparr>trace = [], replies = [], connectListeners = [], callbackForNextBreak = None,
      continueToLocationBreakpointId = Undefined, isRunning = Bool True\<rparr>"

definition exampleHandler :: handler where
  "exampleHandler = FrontendCommandHandler exampleConvert Map.empty Map.empty"

section \<open>Basic facts\<close>

lemmas action_defs = skip_def throw_def andThen_def emit_def consoleLog_def sendResponse_def
  sendEvent_def sendLogToConsole_def sendBacktraceToFrontend_def

lemma splitOn_no_separator:
  "sep \<notin> set name \<Longrightarrow> splitOn sep name = [name]"
  by (induction name) auto

lemma splitOn_domain_method:
  "CHR ''.'' \<notin> set domain \<Longrightarrow> CHR ''.'' \<notin> set name \<Longrightarrow>
   splitOn (CHR ''.'') (domain @ CHR ''.'' # name) = [domain, name]"
  by (induction domain) (auto simp: splitOn_no_separator)

lemma splitOn_not_empty: "splitOn sep s \<noteq> []"
  by (induction s) (auto split: list.splits)

lemma field_defined_object:
  "field v name \<noteq> Undefined \<Longrightarrow> v \<noteq> Undefined \<and> v \<noteq> Null"
  by (auto simp: field_def)

lemma handleMethodResult_truthy:
  "truthy requestId \<Longrightarrow>
   handleMethodResult requestId name error result w =
   Returns (w\<lparr>trace := trace w @ [SendResponse requestId error result]\<rparr>)"
  by (simp add: handleMethodResult_def action_defs)

lemma handleMethodResult_falsy:
  "\<not> truthy requestId \<Longrightarrow> handleMethodResult requestId name error result w = Returns w"
  by (simp add: handleMethodResult_def action_defs)

lemma objectPrototype_names:
  "objectPrototype name = Some b \<Longrightarrow> name \<in> set
     [''constructor'', ''toString'', ''toLocaleString'', ''valueOf'', ''isPrototypeOf'',
      ''hasOwnProperty'', ''propertyIsEnumerable'', ''__defineGetter__'', ''__defineSetter__'',
      ''__lookupGetter__'', ''__lookupSetter__'', ''__proto__'']"
  unfolding objectPrototype_def
  by (drule map_of_SomeD) auto

lemma objectPrototype_no_separator:
  "CHR ''.'' \<in> set name \<Longrightarrow> objectPrototype name = None"
proof (rule ccontr)
  assume dot: "CHR ''.'' \<in> set name" and "objectPrototype name \<noteq> None"
  then obtain b where "objectPrototype name = Some b" by auto
  from objectPrototype_names [OF this] dot show False by auto
qed

lemma handleCommand_resolved:
  assumes "specialCommands this (domain @ ''.'' @ name) = None"
    and "CHR ''.'' \<notin> set domain" and "CHR ''.'' \<notin> set name"
    and "agents this domain = Some agent"
    and "agent name = Some (Function f)"
    and "field messageObject ''method'' = Str (domain @ ''.'' @ name)"
  shows "handleCommand this messageObject w =
         f (field messageObject ''params'')
           (MethodResult (field messageObject ''id'') (domain @ ''.'' @ name)) w"
proof -
  have obj: "messageObject \<noteq> Undefined" "messageObject \<noteq> Null"
    using assms(6) by (auto simp: field_def)
  have inh: "objectPrototype (domain @ CHR ''.'' # name) = None"
    by (rule objectPrototype_no_separator) simp
  show ?thesis
    using assms obj inh
    by (simp add: handleCommand_def getProp_def splitString_def splitOn_domain_method
        element_def Let_def)
qed

lemma Debugger_registered:
  "agents (FrontendCommandHandler c runtimeAgent pageAgent) ''Debugger'' = Some (DebuggerAgent c)"
  by (simp add: FrontendCommandHandler_def initializeRegistry_def registerAgent_def
      registerQuery_def)

lemma specialCommands_registry:
  "specialCommands (FrontendCommandHandler c runtimeAgent pageAgent) =
   map_of [(''Worker.canInspectWorkers'', Obj [(''result'', Obj [(''result'', Bool False)])]),
           (''CSS.getSupportedCSSProperties'',
              Obj [(''result'', Obj [(''cssProperties'', Arr [])])]),
           (''CSS.enable'', Obj []),
           (''Profiler.enable'', Obj []),
           (''Inspector.enable'', Obj []),
           (''DOM.hideHighlight'', Obj []),
           (''DOMStorage.enable'', Obj []),
           (''Database.enable'', Obj []),
           (''Console.enable'', Obj []),
           (''Network.enable'', Obj [])]"
  by (simp add: FrontendCommandHandler_def initializeRegistry_def registerAgent_def
      registerQuery_def)

lemma Debugger_not_special:
  "specialCommands (FrontendCommandHandler c runtimeAgent pageAgent) (''Debugger.'' @ name) = None"
  by (simp add: specialCommands_registry)

text \<open>A command for a function of the DebuggerAgent reaches that function.\<close>

lemma handleCommand_Debugger:
  assumes "DebuggerAgent c name = Some (Function f)"
    and "CHR ''.'' \<notin> set name"
    and "field messageObject ''method'' = Str (''Debugger.'' @ name)"
  shows "handleCommand (FrontendCommandHandler c runtimeAgent pageAgent) messageObject w =
         f (field messageObject ''params'')
           (MethodResult (field messageObject ''id'') (''Debugger.'' @ name)) w"
  using handleCommand_resolved [of "FrontendCommandHandler c runtimeAgent pageAgent"
      "''Debugger''" name "DebuggerAgent c" f messageObject w]
    assms Debugger_registered [of c runtimeAgent pageAgent]
    Debugger_not_special [of c runtimeAgent pageAgent name]
  by simp

lemma exampleHandler_special:
  "specialCommands exampleHandler ''Network.enable'' = Some (Obj [])"
  "specialCommands exampleHandler ''Missing.method'' = None"
  "specialCommands exampleHandler ''Debugger.missing'' = None"
  "specialCommands exampleHandler ''Debugger.canSetScriptSource'' = None"
  by (simp_all add: exampleHandler_def specialCommands_registry)

lemma exampleHandler_agents:
  "agents exampleHandler ''Debugger'' = Some (DebuggerAgent exampleConvert)"
  "agents exampleHandler ''Missing'' = None"
  by (simp_all add: exampleHandler_def FrontendCommandHandler_def initializeRegistry_def
      registerAgent_def registerQuery_def)

lemma andThen_skip [simp]: "andThen a skip = a"
  by (rule ext) (simp add: andThen_def skip_def split: outcome.splits)

lemma skip_andThen [simp]: "andThen skip a = a"
  by (rule ext) (simp add: andThen_def skip_def)

lemma emit_andThen: "andThen (emit e) a w = a (w\<lparr>trace := trace w @ [e]\<rparr>)"
  by (simp add: andThen_def emit_def)

lemma throw_andThen [simp]: "andThen (throw e) a = throw e"
  by (rule ext) (simp add: andThen_def throw_def)

lemma replies_trace_update:
  "w\<lparr>replies := rs, trace := t\<rparr> = w\<lparr>trace := t, replies := rs\<rparr>"
  by (cases w) simp

lemma removeOneBreakpoint_reply:
  assumes "bp \<noteq> Undefined" "bp \<noteq> Null" "replies w = r # rs"
  shows "removeOneBreakpoint bp next w =
         next Undefined (w\<lparr>trace := trace w @ clearEffects [bp] [r], replies := rs\<rparr>)"
  using assms
  by (simp add: removeOneBreakpoint_def getProp_def clearBreakpoint_def asyncCall_def
      consoleLog_def emit_andThen replies_trace_update)

lemma removeOneBreakpoint_pending:
  assumes "bp \<noteq> Undefined" "bp \<noteq> Null" "replies w = []"
  shows "removeOneBreakpoint bp next w =
         Returns (w\<lparr>trace := trace w @ [ClearBreakpoint (field bp ''number'')]\<rparr>)"
  using assms
  by (simp add: removeOneBreakpoint_def getProp_def clearBreakpoint_def asyncCall_def)

lemma iterate_removeOneBreakpoint:
  assumes "\<forall>bp\<in>set bps. bp \<noteq> Undefined \<and> bp \<noteq> Null"
    and "bps \<noteq> []" and "length crs = length bps" and "replies w = crs @ rest"
  shows "iterate bps removeOneBreakpoint callback w =
         invoke callback Null (w\<lparr>trace := trace w @ clearEffects bps crs, replies := rest\<rparr>)"
  using assms
proof (induction bps arbitrary: crs w)
  case Nil
  then show ?case by simp
next
  case (Cons bp bps)
  then obtain r rs where crs: "crs = r # rs" by (cases crs) auto
  have bp: "bp \<noteq> Undefined" "bp \<noteq> Null" using Cons.prems(1) by auto
  have rep: "replies w = r # (rs @ rest)" using Cons.prems(4) crs by simp
  show ?case
  proof (cases "bps = []")
    case True
    with Cons.prems crs have "rs = []" by simp
    with True bp rep crs show ?thesis
      by (simp add: removeOneBreakpoint_reply)
  next
    case False
    let ?w1 = "w\<lparr>trace := trace w @ clearEffects [bp] [r], replies := rs @ rest\<rparr>"
    have "iterate bps removeOneBreakpoint callback ?w1 =
          invoke callback Null (?w1\<lparr>trace := trace ?w1 @ clearEffects bps rs, replies := rest\<rparr>)"
      using Cons.IH [of rs ?w1] Cons.prems crs False by simp
    with False bp rep crs show ?thesis
      by (simp add: removeOneBreakpoint_reply)
  qed
qed

lemma iterate_removeOneBreakpoint_stalls:
  assumes "\<forall>bp\<in>set bps. bp \<noteq> Undefined \<and> bp \<noteq> Null"
    and "length crs < length bps" and "replies w = crs"
  shows "iterate bps removeOneBreakpoint callback w =
         Returns (w\<lparr>trace := trace w @ clearEffects bps crs
                             @ [ClearBreakpoint (field (bps ! length crs) ''number'')],
                    replies := []\<rparr>)"
  using assms
proof (induction bps arbitrary: crs w)
  case Nil
  then show ?case by simp
next
  case (Cons bp bps)
  have bp: "bp \<noteq> Undefined" "bp \<noteq> Null" using Cons.prems(1) by auto
  show ?case
  proof (cases crs)
    case Nil
    with bp Cons.prems show ?thesis
      by (simp add: removeOneBreakpoint_pending)
  next
    case (Cons r rs)
    let ?w1 = "w\<lparr>trace := trace w @ clearEffects [bp] [r], replies := rs\<rparr>"
    have len: "length rs < length bps" using Cons.prems(2) Cons by simp
    then have ne: "bps \<noteq> []" by auto
    have "iterate bps removeOneBreakpoint callback ?w1 =
         Returns (?w1\<lparr>trace := trace ?w1 @ clearEffects bps rs
                             @ [ClearBreakpoint (field (bps ! length rs) ''number'')],
                    replies := []\<rparr>)"
      using Cons.IH [of rs ?w1] Cons.prems len by simp
    with bp Cons Cons.prems ne show ?thesis
      by (simp add: removeOneBreakpoint_reply)
  qed
qed

lemma count_clearEffects:
  "length (filter isClearBreakpoint (clearEffects bps crs)) = min (length bps) (length crs)"
  by (induction bps crs rule: clearEffects.induct) auto


lemma clearEffects_append:
  "length crs = length bps \<Longrightarrow> clearEffects bps (crs @ rest) = clearEffects bps crs"
  by (induction bps crs rule: clearEffects.induct) auto

lemma removeAllBreakpoints_completes:
  assumes "replies w = (lerr, lres) # crs @ rest" and "\<not> truthy lerr"
    and "field lres ''breakpoints'' = Arr bps" and "length crs = length bps"
    and "\<forall>bp\<in>set bps. bp \<noteq> Undefined \<and> bp \<noteq> Null"
  shows "removeAllBreakpoints (Callable k) w =
         k (if bps = [] then Undefined else Null)
           (w\<lparr>trace := trace w @ Request ''listbreakpoints'' (Obj []) # clearEffects bps crs,
              replies := rest\<rparr>)"
proof -
  have obj: "lres \<noteq> Undefined" "lres \<noteq> Null"
    using assms(3) by (auto simp: field_def)
  let ?w1 = "w\<lparr>trace := trace w @ [Request ''listbreakpoints'' (Obj [])], replies := crs @ rest\<rparr>"
  have start: "removeAllBreakpoints (Callable k) w =
               eachSeries (Arr bps) removeOneBreakpoint (Callable k) ?w1"
    using assms(1,2,3) obj
    by (simp add: removeAllBreakpoints_def request_def asyncCall_def getProp_def)
  show ?thesis
  proof (cases "bps = []")
    case True
    with assms(4) start show ?thesis
      by (simp add: eachSeries_def elements_def)
  next
    case False
    have "iterate bps removeOneBreakpoint (Callable k) ?w1 =
          invoke (Callable k) Null
            (?w1\<lparr>trace := trace ?w1 @ clearEffects bps crs, replies := rest\<rparr>)"
      using iterate_removeOneBreakpoint [of bps crs ?w1 rest "Callable k"] assms(4,5) False
      by simp
    with False start show ?thesis
      by (simp add: eachSeries_def elements_def)
  qed
qed

lemma removeAllBreakpoints_stalls:
  assumes "replies w = (lerr, lres) # crs" and "\<not> truthy lerr"
    and "field lres ''breakpoints'' = Arr bps" and "length crs < length bps"
    and "\<forall>bp\<in>set bps. bp \<noteq> Undefined \<and> bp \<noteq> Null"
  shows "removeAllBreakpoints (Callable k) w =
         Returns (w\<lparr>trace := trace w @ Request ''listbreakpoints'' (Obj []) # clearEffects bps crs
                             @ [ClearBreakpoint (field (bps ! length crs) ''number'')],
                    replies := []\<rparr>)"
proof -
  have obj: "lres \<noteq> Undefined" "lres \<noteq> Null"
    using assms(3) by (auto simp: field_def)
  have ne: "bps \<noteq> []" using assms(4) by auto
  let ?w1 = "w\<lparr>trace := trace w @ [Request ''listbreakpoints'' (Obj [])], replies := crs\<rparr>"
  have start: "removeAllBreakpoints (Callable k) w =
               eachSeries (Arr bps) removeOneBreakpoint (Callable k) ?w1"
    using assms(1,2,3) obj
    by (simp add: removeAllBreakpoints_def request_def asyncCall_def getProp_def)
  have "iterate bps removeOneBreakpoint (Callable k) ?w1 =
         Returns (?w1\<lparr>trace := trace ?w1 @ clearEffects bps crs
                             @ [ClearBreakpoint (field (bps ! length crs) ''number'')],
                    replies := []\<rparr>)"
    using iterate_removeOneBreakpoint_stalls [of bps crs ?w1 "Callable k"] assms(4,5)
    by simp
  with ne start show ?thesis
    by (simp add: eachSeries_def elements_def)
qed

lemma block_AddScript:
  "block (map (\<lambda>script. emit (AddScript script)) scripts) w =
   Returns (w\<lparr>trace := trace w @ map AddScript scripts\<rparr>)"
  by (induction scripts arbitrary: w) (simp_all add: skip_def emit_andThen)

lemma reload_pending:
  assumes "replies w = []"
  shows "waterfall [reloadScripts, sendBacktraceIfPaused] w =
         Returns (w\<lparr>trace := trace w @ [ScriptsReset, scriptsRequest]\<rparr>)"
  using assms
  by (simp add: reloadScripts_def emit_andThen request_def asyncCall_def scriptsRequest_def)

lemma reload_fails:
  assumes "replies w = (serr, sres) # rest" and "truthy serr"
  shows "waterfall [reloadScripts, sendBacktraceIfPaused] w =
         Returns (w\<lparr>trace := trace w @ [ScriptsReset, scriptsRequest], replies := rest\<rparr>)"
  using assms
  by (simp add: reloadScripts_def emit_andThen request_def asyncCall_def scriptsRequest_def
      skip_def)

lemma reload_succeeds:
  assumes "replies w = (serr, Arr scripts) # rest" and "\<not> truthy serr"
  shows "waterfall [reloadScripts, sendBacktraceIfPaused] w =
         Returns (w\<lparr>trace := trace w @ [ScriptsReset, scriptsRequest] @ map AddScript scripts
                             @ (if truthy (isRunning w) then [] else [SendBacktraceToFrontend Null]),
                    replies := rest\<rparr>)"
  using assms
  by (simp add: reloadScripts_def emit_andThen request_def asyncCall_def scriptsRequest_def
      forEach_def block_AddScript andThen_def sendBacktraceIfPaused_def skip_def
      sendBacktraceToFrontend_def emit_def replies_trace_update)

lemma reload_malformed:
  assumes "replies w = (serr, sres) # rest" and "\<not> truthy serr" and "\<forall>scripts. sres \<noteq> Arr scripts"
  shows "waterfall [reloadScripts, sendBacktraceIfPaused] w =
         Throws (TypeError ''forEach'')
           (w\<lparr>trace := trace w @ [ScriptsReset, scriptsRequest], replies := rest\<rparr>)"
  using assms
  by (cases sres)
     (simp_all add: reloadScripts_def emit_andThen request_def asyncCall_def scriptsRequest_def
      forEach_def throw_def)

lemma reload_prefix:
  "prefix (trace w @ [ScriptsReset, scriptsRequest])
     (trace (worldOf (waterfall [reloadScripts, sendBacktraceIfPaused] w)))"
proof (cases "replies w")
  case Nil
  then show ?thesis by (simp add: reload_pending worldOf_def del: waterfall.simps)
next
  case (Cons r rest)
  obtain serr sres where r: "r = (serr, sres)" by (cases r)
  show ?thesis
  proof (cases "truthy serr")
    case True
    with Cons r show ?thesis by (simp add: reload_fails worldOf_def del: waterfall.simps)
  next
    case False
    show ?thesis
    proof (cases "\<exists>scripts. sres = Arr scripts")
      case True
      then obtain scripts where "sres = Arr scripts" by blast
      with Cons r False show ?thesis
        using reload_succeeds [of w serr scripts rest]
        by (simp add: worldOf_def del: waterfall.simps)
    next
      case nonarray: False
      with Cons r False show ?thesis
        using reload_malformed [of w serr sres rest]
        by (simp add: worldOf_def del: waterfall.simps)
    qed
  qed
qed

lemma onDebuggerConnect_after_clears:
  assumes "replies w = (lerr, lres) # crs @ rest" and "\<not> truthy lerr"
    and "field lres ''breakpoints'' = Arr bps" and "length crs = length bps"
    and "\<forall>bp\<in>set bps. bp \<noteq> Undefined \<and> bp \<noteq> Null"
  shows "onDebuggerConnect w =
         waterfall [reloadScripts, sendBacktraceIfPaused]
           (w\<lparr>trace := trace w @ Request ''listbreakpoints'' (Obj []) # clearEffects bps crs,
              replies := rest\<rparr>)"
  using removeAllBreakpoints_completes [OF assms, of
      "\<lambda>err. if truthy err then skip else waterfall [reloadScripts, sendBacktraceIfPaused]"]
  by (simp add: onDebuggerConnect_def)


lemma onDebuggerConnect_list_fails:
  assumes "replies w = (lerr, lres) # rest" and "truthy lerr"
  shows "onDebuggerConnect w =
         waterfall [reloadScripts, sendBacktraceIfPaused]
           (w\<lparr>trace := trace w
                 @ [Request ''listbreakpoints'' (Obj []),
                    ConsoleLog ''Warning: cannot remove old breakpoints. %s'' [lerr]],
              replies := rest\<rparr>)"
  using assms
  by (simp add: onDebuggerConnect_def removeAllBreakpoints_def request_def asyncCall_def
      consoleLog_def emit_andThen replies_trace_update)

lemma clearEffects_take:
  "length bps \<le> length crs \<Longrightarrow> clearEffects bps (take (length bps) crs) = clearEffects bps crs"
  by (induction bps crs rule: clearEffects.induct) auto

lemma emitConnect_single:
  assumes "connectListeners w = [EnableListener (MethodResult requestId name)]"
    and "truthy requestId"
  shows "emitConnect w =
         onDebuggerConnect (w\<lparr>trace := trace w @ [SendResponse requestId Undefined Undefined]\<rparr>)"
  using assms
  by (simp add: emitConnect_def handleMethodResult_def sendResponse_def emit_andThen)

lemma keeps_skip [simp]: "keepsListeners skip"
  by (simp add: keepsListeners_def skip_def worldOf_def)

lemma keeps_throw [simp]: "keepsListeners (throw e)"
  by (simp add: keepsListeners_def throw_def worldOf_def)

lemma keeps_emit [simp]: "keepsListeners (emit e)"
  by (simp add: keepsListeners_def emit_def worldOf_def)

lemma keeps_andThen:
  assumes "keepsListeners a" and "keepsListeners b"
  shows "keepsListeners (andThen a b)"
  unfolding keepsListeners_def
proof
  fix w
  show "connectListeners (worldOf (andThen a b w)) = connectListeners w"
  proof (cases "a w")
    case (Returns w1)
    then have "connectListeners w1 = connectListeners w"
      using assms(1) by (auto simp: keepsListeners_def worldOf_def dest: spec [of _ w])
    moreover have "connectListeners (worldOf (b w1)) = connectListeners w1"
      using assms(2) by (simp add: keepsListeners_def)
    ultimately show ?thesis using Returns by (simp add: andThen_def)
  next
    case (Throws e w1)
    then have "connectListeners w1 = connectListeners w"
      using assms(1) by (auto simp: keepsListeners_def worldOf_def dest: spec [of _ w])
    then show ?thesis using Throws by (simp add: andThen_def worldOf_def)
  qed
qed

lemma keeps_block:
  "(\<forall>a\<in>set as. keepsListeners a) \<Longrightarrow> keepsListeners (block as)"
  by (induction as) (simp_all add: keeps_andThen)

lemma keeps_if:
  "keepsListeners a \<Longrightarrow> keepsListeners b \<Longrightarrow> keepsListeners (if c then a else b)"
  by simp

lemma keeps_asyncCall:
  assumes "\<And>err result. keepsListeners (cb err result)"
  shows "keepsListeners (asyncCall e cb)"
  unfolding keepsListeners_def
proof
  fix w
  show "connectListeners (worldOf (asyncCall e cb w)) = connectListeners w"
  proof (cases "replies w")
    case Nil
    then show ?thesis by (simp add: asyncCall_def worldOf_def)
  next
    case (Cons r rs)
    have "connectListeners (worldOf (cb (fst r) (snd r) (w\<lparr>trace := trace w @ [e], replies := rs\<rparr>)))
          = connectListeners (w\<lparr>trace := trace w @ [e], replies := rs\<rparr>)"
      using assms [of "fst r" "snd r"] unfolding keepsListeners_def by blast
    with Cons show ?thesis by (simp add: asyncCall_def)
  qed
qed

lemma keeps_getProp:
  "(\<And>x. keepsListeners (k x)) \<Longrightarrow> keepsListeners (getProp v name k)"
  by (simp add: getProp_def)

lemma keeps_invoke:
  "(\<And>v. keepsListeners (k v)) \<Longrightarrow> keepsListeners (invoke (Callable k) err)"
  by simp

lemma keeps_invoke_NotCallable [simp]: "keepsListeners (invoke (NotCallable v) err)"
  by simp

lemma keepsCallee_orNoop: "keepsCallee c \<Longrightarrow> keepsCallee (orNoop c)"
  by (cases c) (auto simp: keepsCallee_def)

lemma keeps_iterate:
  assumes "\<And>x next. (\<And>v. keepsListeners (next v)) \<Longrightarrow> keepsListeners (iterator x next)"
    and "keepsCallee callback"
  shows "keepsListeners (iterate xs iterator callback)"
proof (induction xs)
  case Nil
  show ?case by simp
next
  case (Cons x xs)
  have "keepsListeners
          (if truthy err then invoke callback err
           else if xs = [] then invoke callback Null
           else iterate xs iterator callback)" for err
    using Cons.IH assms(2) by (simp add: keepsCallee_def)
  then show ?case
    using assms(1) by simp
qed

lemma keeps_elements:
  "(\<And>xs. keepsListeners (k xs)) \<Longrightarrow> keepsListeners (elements arr k)"
  by (cases arr) (simp_all add: elements_def split: option.splits)

lemma keeps_eachSeries:
  assumes "\<And>x next. (\<And>v. keepsListeners (next v)) \<Longrightarrow> keepsListeners (iterator x next)"
    and "keepsCallee callback"
  shows "keepsListeners (eachSeries arr iterator callback)"
proof -
  have cb: "keepsCallee (orNoop callback)" using assms(2) by (rule keepsCallee_orNoop)
  have body: "keepsListeners
          (if xs = [] then invoke (orNoop callback) Undefined
           else iterate xs iterator (orNoop callback))" for xs
    using keeps_iterate [of iterator "orNoop callback" xs, OF assms(1) cb] cb
    by (simp add: keepsCallee_def)
  show ?thesis
    unfolding eachSeries_def by (rule keeps_elements) (rule body)
qed

lemma keeps_removeOneBreakpoint:
  assumes "\<And>v. keepsListeners (next v)"
  shows "keepsListeners (removeOneBreakpoint bp next)"
  unfolding removeOneBreakpoint_def clearBreakpoint_def consoleLog_def
  by (intro keeps_getProp keeps_asyncCall keeps_block) (simp add: assms)

lemma keeps_removeAllBreakpoints:
  assumes "keepsCallee done"
  shows "keepsListeners (removeAllBreakpoints done)"
  unfolding removeAllBreakpoints_def request_def consoleLog_def
  using assms
  by (intro keeps_asyncCall keeps_if keeps_block keeps_getProp keeps_eachSeries
        keeps_removeOneBreakpoint)
     (simp_all add: keepsCallee_def)

lemma keeps_forEach:
  "(\<And>x. keepsListeners (f x)) \<Longrightarrow> keepsListeners (forEach v f)"
  by (cases v) (simp_all add: forEach_def keeps_block)

lemma keeps_reloadScripts:
  assumes "keepsCallee done"
  shows "keepsListeners (reloadScripts done)"
proof -
  have cb: "keepsListeners
              (if truthy err then invoke done err
               else block [forEach result (\<lambda>script. emit (AddScript script)),
                           invoke done Undefined])" for err result
    using assms by (simp add: keepsCallee_def keeps_andThen keeps_forEach)
  have "keepsListeners (asyncCall e (\<lambda>err result.
              if truthy err then invoke done err
               else block [forEach result (\<lambda>script. emit (AddScript script)),
                           invoke done Undefined]))" for e
    by (rule keeps_asyncCall) (rule cb)
  then show ?thesis
    unfolding reloadScripts_def request_def
    by (simp add: keeps_andThen)
qed

lemma keeps_sendBacktraceIfPaused:
  assumes "keepsCallee done"
  shows "keepsListeners (sendBacktraceIfPaused done)"
proof -
  have "keepsListeners (block [if c then sendBacktraceToFrontend Null else skip,
                               invoke done Undefined])" for c
    using assms by (intro keeps_block) (simp add: keepsCallee_def sendBacktraceToFrontend_def)
  then show ?thesis
    unfolding keepsListeners_def sendBacktraceIfPaused_def by blast
qed

lemma keeps_waterfall:
  assumes "\<And>task done. task \<in> set tasks \<Longrightarrow> keepsCallee done \<Longrightarrow> keepsListeners (task done)"
  shows "keepsListeners (waterfall tasks)"
  using assms
proof (induction tasks)
  case Nil
  show ?case by simp
next
  case (Cons task tasks)
  have rest: "keepsListeners (waterfall tasks)"
    using Cons by simp
  have "keepsCallee (Callable (\<lambda>err. if truthy err then skip else waterfall tasks))"
    using rest by (simp add: keepsCallee_def)
  then show ?case using Cons.prems by simp
qed

lemma keeps_onDebuggerConnect: "keepsListeners onDebuggerConnect"
  unfolding onDebuggerConnect_def
  by (rule keeps_waterfall)
     (auto intro: keeps_removeAllBreakpoints keeps_reloadScripts keeps_sendBacktraceIfPaused)


lemma DebuggerAgent_enable:
  "DebuggerAgent c ''enable'' = Some (Function enable)"
  by (simp add: DebuggerAgent_def)

lemma DebuggerAgent_pause_resume:
  "DebuggerAgent c ''pause'' = Some (Function pause)"
  "DebuggerAgent c ''resume'' = Some (Function resume)"
  "DebuggerAgent c ''stepOver'' = Some (Function stepOver)"
  "DebuggerAgent c ''stepInto'' = Some (Function stepInto)"
  "DebuggerAgent c ''stepOut'' = Some (Function stepOut)"
  by (simp_all add: DebuggerAgent_def)

lemma sendContinue_succeeds:
  assumes "truthy requestId" and "\<not> truthy error" and "replies w = (error, result) # rest"
  shows "sendContinue stepAction (MethodResult requestId name) w =
         Returns (w\<lparr>trace := trace w
                     @ [Request ''continue''
                          (if truthy stepAction then Obj [(''stepaction'', stepAction)] else Undefined),
                        SendResponse requestId error Undefined,
                        SendEvent ''Debugger.resumed''],
                    replies := rest\<rparr>)"
  using assms
  by (simp add: sendContinue_def request_def asyncCall_def handleMethodResult_truthy
      sendEvent_def emit_def andThen_def)

lemma pause_succeeds:
  assumes "truthy requestId" and "\<not> truthy error" and "replies w = (error, result) # rest"
  shows "pause params (MethodResult requestId name) w =
         Returns (w\<lparr>trace := trace w
                     @ [Request ''suspend'' (Obj []),
                        SendResponse requestId error Undefined,
                        SendBacktraceToFrontend Null],
                    replies := rest\<rparr>)"
  using assms
  by (simp add: pause_def request_def asyncCall_def handleMethodResult_truthy
      sendBacktraceToFrontend_def emit_def andThen_def)

lemma DebuggerAgent_evaluateOnCallFrame:
  "DebuggerAgent c ''evaluateOnCallFrame'' = Some (Function (evaluateOnCallFrame c))"
  by (simp add: DebuggerAgent_def)

lemma DebuggerAgent_setScriptSource:
  "DebuggerAgent c ''setScriptSource'' = Some (Function (setScriptSource c))"
  by (simp add: DebuggerAgent_def)

lemma setScriptSource_sendResponse_truthy:
  assumes "truthy requestId" and "response \<noteq> Undefined" and "response \<noteq> Null"
  shows "setScriptSource_sendResponse (MethodResult requestId name) response callframes w =
         Returns (w\<lparr>trace := trace w
                     @ [SendResponse requestId Null
                          (Obj [(''callFrames'', orElse callframes (Arr [])),
                                (''result'', field response ''result'')])]\<rparr>)"
  using assms
  by (simp add: setScriptSource_sendResponse_def getProp_def handleMethodResult_truthy)

lemma sendResponseWithCallStack_fetched:
  assumes "truthy requestId" and "response \<noteq> Undefined" and "response \<noteq> Null"
    and "replies w = (ferr, frames) # rest" and "\<not> truthy ferr"
  shows "sendResponseWithCallStack (MethodResult requestId name) response w =
         Returns (w\<lparr>trace := trace w
                     @ [FetchCallFrames,
                        SendResponse requestId Null
                          (Obj [(''callFrames'', orElse frames (Arr [])),
                                (''result'', field response ''result'')])],
                    replies := rest\<rparr>)"
  using assms
  by (simp add: sendResponseWithCallStack_def fetchCallFrames_def asyncCall_def
      setScriptSource_sendResponse_truthy replies_trace_update)

lemma sendResponseWithCallStack_failed:
  assumes "truthy requestId" and "response \<noteq> Undefined" and "response \<noteq> Null"
    and "replies w = (ferr, frames) # rest" and "truthy ferr"
  shows "sendResponseWithCallStack (MethodResult requestId name) response w =
         Returns (w\<lparr>trace := trace w
                     @ [FetchCallFrames,
                        SendLogToConsole ''error''
                          [Str ''Cannot update stack trace after a script changed: '', ferr],
                        SendResponse requestId Null
                          (Obj [(''callFrames'', Arr []),
                                (''result'', field response ''result'')])],
                    replies := rest\<rparr>)"
  using assms
  by (simp add: sendResponseWithCallStack_def fetchCallFrames_def asyncCall_def
      setScriptSource_sendResponse_truthy sendLogToConsole_def emit_andThen orElse_def
      replies_trace_update)


lemma world_update_order:
  "w\<lparr>replies := rs, trace := t\<rparr> = w\<lparr>trace := t, replies := rs\<rparr>"
  "w\<lparr>callbackForNextBreak := cb, trace := t\<rparr> = w\<lparr>trace := t, callbackForNextBreak := cb\<rparr>"
  "w\<lparr>callbackForNextBreak := cb, replies := rs\<rparr> = w\<lparr>replies := rs, callbackForNextBreak := cb\<rparr>"
  by (cases w, simp)+

lemma DebuggerAgent_canSetScriptSource:
  "DebuggerAgent c ''canSetScriptSource'' = Some (Function canSetScriptSource)"
  by (simp add: DebuggerAgent_def)

lemma DebuggerAgent_sendContinue:
  "DebuggerAgent c ''_sendContinue'' = Some (Function sendContinue)"
  by (simp add: DebuggerAgent_def)

lemma silent_skip [simp]: "silent i skip"
  by (simp add: silent_def skip_def)

lemma silent_emit: "\<not> isResponseTo i e \<Longrightarrow> silent i (emit e)"
  by (auto simp: silent_def emit_def responsesTo_def)

lemma silent_if: "silent i a \<Longrightarrow> silent i b \<Longrightarrow> silent i (if c then a else b)"
  by simp

lemma silent_setContinueToLocationBreakpointId [simp]:
  "silent i (setContinueToLocationBreakpointId v)"
  by (auto simp: silent_def setContinueToLocationBreakpointId_def)

lemma once_throw [simp]: "answersOnce i (throw e)"
  by (simp add: answersOnce_def throw_def)

lemma once_call:
  "truthy i \<Longrightarrow> answersOnce i (call (MethodResult i name) error result)"
  by (auto simp: answersOnce_def handleMethodResult_truthy responsesTo_def)

lemma once_if: "answersOnce i a \<Longrightarrow> answersOnce i b \<Longrightarrow> answersOnce i (if c then a else b)"
  by simp

lemma once_then_silent:
  assumes "answersOnce i a" and "silent i b"
  shows "answersOnce i (andThen a b)"
  unfolding answersOnce_def
proof (intro allI impI)
  fix w w'
  assume run: "andThen a b w = Returns w'" and spare: "replies w' \<noteq> []"
  then obtain w1 where a: "a w = Returns w1" and b: "b w1 = Returns w'"
    by (auto simp: andThen_def split: outcome.splits)
  from assms(2) b have same: "responsesTo i (trace w') = responsesTo i (trace w1)"
    "replies w' = replies w1" by (auto simp: silent_def)
  with assms(1) a spare show "length (responsesTo i (trace w')) = length (responsesTo i (trace w)) + 1"
    by (auto simp: answersOnce_def)
qed

lemma silent_then_once:
  assumes "silent i a" and "answersOnce i b"
  shows "answersOnce i (andThen a b)"
  unfolding answersOnce_def
proof (intro allI impI)
  fix w w'
  assume run: "andThen a b w = Returns w'" and spare: "replies w' \<noteq> []"
  then obtain w1 where a: "a w = Returns w1" and b: "b w1 = Returns w'"
    by (auto simp: andThen_def split: outcome.splits)
  from assms(1) a have same: "responsesTo i (trace w1) = responsesTo i (trace w)"
    by (auto simp: silent_def)
  with assms(2) b spare show "length (responsesTo i (trace w')) = length (responsesTo i (trace w)) + 1"
    by (auto simp: answersOnce_def)
qed

lemma once_asyncCall:
  assumes "\<not> isResponseTo i e" and "\<And>err result. answersOnce i (cb err result)"
  shows "answersOnce i (asyncCall e cb)"
  unfolding answersOnce_def
proof (intro allI impI)
  fix w w'
  assume run: "asyncCall e cb w = Returns w'" and spare: "replies w' \<noteq> []"
  show "length (responsesTo i (trace w')) = length (responsesTo i (trace w)) + 1"
  proof (cases "replies w")
    case Nil
    with run spare show ?thesis by (auto simp: asyncCall_def)
  next
    case (Cons r rs)
    let ?w1 = "w\<lparr>trace := trace w @ [e], replies := rs\<rparr>"
    from Cons run have "cb (fst r) (snd r) ?w1 = Returns w'"
      by (simp add: asyncCall_def)
    with assms(2) [of "fst r" "snd r"] spare
    have "length (responsesTo i (trace w')) = length (responsesTo i (trace ?w1)) + 1"
      by (auto simp: answersOnce_def)
    with assms(1) show ?thesis by (simp add: responsesTo_def)
  qed
qed

lemma once_request:
  "(\<And>err result. answersOnce i (cb err result)) \<Longrightarrow> answersOnce i (request name args cb)"
  unfolding request_def by (rule once_asyncCall) simp_all

lemma once_clearBreakpoint:
  "(\<And>err result. answersOnce i (cb err result)) \<Longrightarrow> answersOnce i (clearBreakpoint number cb)"
  unfolding clearBreakpoint_def by (rule once_asyncCall) simp_all

lemma once_getProp:
  "(\<And>x. answersOnce i (k x)) \<Longrightarrow> answersOnce i (getProp v name k)"
  by (simp add: getProp_def)

lemma once_getFirst:
  "(\<And>x. answersOnce i (k x)) \<Longrightarrow> answersOnce i (getFirst v k)"
  by (cases v) (simp_all add: getFirst_def)

lemma once_toStringOf:
  "(\<And>x. answersOnce i (k x)) \<Longrightarrow> answersOnce i (toStringOf c v k)"
  by (cases v) (simp_all add: toStringOf_def)

lemma once_mapArray:
  "(\<And>x. answersOnce i (k x)) \<Longrightarrow> answersOnce i (mapArray v f k)"
  by (cases v) (simp_all add: mapArray_def)

lemma once_elements:
  "(\<And>xs. answersOnce i (k xs)) \<Longrightarrow> answersOnce i (elements arr k)"
  by (cases arr) (simp_all add: elements_def split: option.splits)

lemma once_iterate:
  assumes "\<And>x next. (\<And>v. answersOnce i (next v)) \<Longrightarrow> answersOnce i (iterator x next)"
    and "\<And>v. answersOnce i (invoke callback v)"
    and "xs \<noteq> []"
  shows "answersOnce i (iterate xs iterator callback)"
  using assms(3)
proof (induction xs)
  case Nil
  then show ?case by simp
next
  case (Cons x xs)
  have "answersOnce i
          (if truthy err then invoke callback err
           else if xs = [] then invoke callback Null
           else iterate xs iterator callback)" for err
    using Cons.IH assms(2) by simp
  then show ?case
    using assms(1) by simp
qed

lemma once_eachSeries:
  assumes "\<And>x next. (\<And>v. answersOnce i (next v)) \<Longrightarrow> answersOnce i (iterator x next)"
    and "\<And>v. answersOnce i (k v)"
  shows "answersOnce i (eachSeries arr iterator (Callable k))"
proof -
  have "answersOnce i
          (if xs = [] then invoke (orNoop (Callable k)) Undefined
           else iterate xs iterator (orNoop (Callable k)))" for xs
    using once_iterate [of i iterator "Callable k" xs] assms by simp
  then show ?thesis
    unfolding eachSeries_def by (rule once_elements)
qed

lemma once_canSetScriptSource:
  "truthy i \<Longrightarrow> answersOnce i (canSetScriptSource params (MethodResult i name))"
  unfolding canSetScriptSource_def by (rule once_call)

lemma once_setOverlayMessage:
  "truthy i \<Longrightarrow> answersOnce i (setOverlayMessage params (MethodResult i name))"
  unfolding setOverlayMessage_def by (rule once_call)

lemma once_disable:
  "truthy i \<Longrightarrow> answersOnce i (disable params (MethodResult i name))"
  unfolding disable_def block.simps andThen_skip
  by (intro silent_then_once silent_emit once_call) simp_all

lemma once_sendContinue:
  "truthy i \<Longrightarrow> answersOnce i (sendContinue stepAction (MethodResult i name))"
  unfolding sendContinue_def Let_def block.simps andThen_skip sendEvent_def
  by (intro once_request once_then_silent once_call silent_if silent_emit silent_skip) simp_all

lemma once_resume:
  "truthy i \<Longrightarrow> answersOnce i (resume params (MethodResult i name))"
  unfolding resume_def by (rule once_sendContinue)

lemma once_stepOver:
  "truthy i \<Longrightarrow> answersOnce i (stepOver params (MethodResult i name))"
  unfolding stepOver_def by (rule once_sendContinue)

lemma once_stepInto:
  "truthy i \<Longrightarrow> answersOnce i (stepInto params (MethodResult i name))"
  unfolding stepInto_def by (rule once_sendContinue)

lemma once_stepOut:
  "truthy i \<Longrightarrow> answersOnce i (stepOut params (MethodResult i name))"
  unfolding stepOut_def by (rule once_sendContinue)

lemma once_pause:
  "truthy i \<Longrightarrow> answersOnce i (pause params (MethodResult i name))"
  unfolding pause_def block.simps andThen_skip sendBacktraceToFrontend_def
  by (intro once_request once_then_silent once_call silent_if silent_emit silent_skip) simp_all

lemma once_continueToLocation:
  "truthy i \<Longrightarrow> answersOnce i (continueToLocation c params (MethodResult i name))"
  unfolding continueToLocation_def block.simps andThen_skip
  by (intro once_getProp once_request once_if once_call silent_then_once
        silent_setContinueToLocationBreakpointId)

lemma once_getScriptSource:
  "truthy i \<Longrightarrow> answersOnce i (getScriptSource params (MethodResult i name))"
  unfolding getScriptSource_def
  by (intro once_getProp once_request once_if once_call once_getFirst)

lemma once_setPauseOnExceptions:
  "truthy i \<Longrightarrow> answersOnce i (setPauseOnExceptions c params (MethodResult i name))"
  unfolding setPauseOnExceptions_def
  by (intro once_getProp once_eachSeries once_request once_call)

lemma once_setBreakpointByUrl:
  "truthy i \<Longrightarrow> answersOnce i (setBreakpointByUrl c params (MethodResult i name))"
  unfolding setBreakpointByUrl_def
  by (intro once_getProp once_request once_if once_call once_toStringOf once_mapArray)

lemma once_removeBreakpoint:
  "truthy i \<Longrightarrow> answersOnce i (removeBreakpoint params (MethodResult i name))"
  unfolding removeBreakpoint_def
  by (intro once_getProp once_clearBreakpoint once_call)

lemma once_setBreakpointsActive:
  "truthy i \<Longrightarrow> answersOnce i (setBreakpointsActive params (MethodResult i name))"
  unfolding setBreakpointsActive_def
  by (intro once_getProp once_request once_if once_call once_eachSeries)

lemma once_evaluateOnCallFrame:
  "truthy i \<Longrightarrow> answersOnce i (evaluateOnCallFrame c params (MethodResult i name))"
  unfolding evaluateOnCallFrame_def Let_def
  by (intro once_getProp once_request once_call)

lemma once_getFunctionDetails:
  "truthy i \<Longrightarrow> answersOnce i (getFunctionDetails c params (MethodResult i name))"
  unfolding getFunctionDetails_def
  by (intro once_getProp once_request once_if once_call)

lemma answersOnce_cong:
  "(\<And>w. a w = b w) \<Longrightarrow> answersOnce i b \<Longrightarrow> answersOnce i a"
  by (simp add: answersOnce_def)

lemma DebuggerAgent_answering:
  "DebuggerAgent c ''disable'' = Some (Function disable)"
  "DebuggerAgent c ''continueToLocation'' = Some (Function (continueToLocation c))"
  "DebuggerAgent c ''getScriptSource'' = Some (Function getScriptSource)"
  "DebuggerAgent c ''setPauseOnExceptions'' = Some (Function (setPauseOnExceptions c))"
  "DebuggerAgent c ''setBreakpointByUrl'' = Some (Function (setBreakpointByUrl c))"
  "DebuggerAgent c ''removeBreakpoint'' = Some (Function removeBreakpoint)"
  "DebuggerAgent c ''setBreakpointsActive'' = Some (Function setBreakpointsActive)"
  "DebuggerAgent c ''setOverlayMessage'' = Some (Function setOverlayMessage)"
  "DebuggerAgent c ''getFunctionDetails'' = Some (Function (getFunctionDetails c))"
  by (simp_all add: DebuggerAgent_def)

lemma Debugger_answers_once:
  assumes "truthy requestId"
    and "name \<in> set answeringMethods"
    and "field messageObject ''method'' = Str (''Debugger.'' @ name)"
    and "field messageObject ''id'' = requestId"
  shows "answersOnce requestId
           (handleCommand (FrontendCommandHandler c runtimeAgent pageAgent) messageObject)"
proof -
  let ?H = "FrontendCommandHandler c runtimeAgent pageAgent"
  let ?done = "MethodResult requestId (''Debugger.'' @ name)"
  let ?params = "field messageObject ''params''"
  have reach: "\<And>f. DebuggerAgent c name = Some (Function f) \<Longrightarrow> CHR ''.'' \<notin> set name \<Longrightarrow>
        answersOnce requestId (f ?params ?done) \<Longrightarrow>
        answersOnce requestId (handleCommand ?H messageObject)"
    using handleCommand_Debugger [of c name _ messageObject runtimeAgent pageAgent] assms(3,4)
    by (auto intro: answersOnce_cong)
  note t = assms(1)
  have which: "name = ''canSetScriptSource'' \<or> name = ''disable'' \<or>
      name = ''resume'' \<or> name = ''pause'' \<or> name = ''stepOver'' \<or>
      name = ''stepInto'' \<or> name = ''stepOut'' \<or>
      name = ''continueToLocation'' \<or> name = ''getScriptSource'' \<or>
      name = ''setPauseOnExceptions'' \<or> name = ''setBreakpointByUrl'' \<or>
      name = ''removeBreakpoint'' \<or> name = ''setBreakpointsActive'' \<or>
      name = ''setOverlayMessage'' \<or> name = ''evaluateOnCallFrame'' \<or>
      name = ''getFunctionDetails''"
    using assms(2) unfolding answeringMethods_def set_simps insert_iff empty_iff by simp
  from which show ?thesis
  proof (elim disjE)
    assume "name = ''canSetScriptSource''"
    then show ?thesis
      using reach [of canSetScriptSource] once_canSetScriptSource [OF t]
      by (simp add: DebuggerAgent_canSetScriptSource)
  next
    assume "name = ''disable''"
    then show ?thesis
      using reach [of disable] once_disable [OF t] by (simp add: DebuggerAgent_answering)
  next
    assume "name = ''resume''"
    then show ?thesis
      using reach [of resume] once_resume [OF t] by (simp add: DebuggerAgent_pause_resume)
  next
    assume "name = ''pause''"
    then show ?thesis
      using reach [of pause] once_pause [OF t] by (simp add: DebuggerAgent_pause_resume)
  next
    assume "name = ''stepOver''"
    then show ?thesis
      using reach [of stepOver] once_stepOver [OF t] by (simp add: DebuggerAgent_pause_resume)
  next
    assume "name = ''stepInto''"
    then show ?thesis
      using reach [of stepInto] once_stepInto [OF t] by (simp add: DebuggerAgent_pause_resume)
  next
    assume "name = ''stepOut''"
    then show ?thesis
      using reach [of stepOut] once_stepOut [OF t] by (simp add: DebuggerAgent_pause_resume)
  next
    assume "name = ''continueToLocation''"
    then show ?thesis
      using reach [of "continueToLocation c"] once_continueToLocation [OF t]
      by (simp add: DebuggerAgent_answering)
  next
    assume "name = ''getScriptSource''"
    then show ?thesis
      using reach [of getScriptSource] once_getScriptSource [OF t]
      by (simp add: DebuggerAgent_answering)
  next
    assume "name = ''setPauseOnExceptions''"
    then show ?thesis
      using reach [of "setPauseOnExceptions c"] once_setPauseOnExceptions [OF t]
      by (simp add: DebuggerAgent_answering)
  next
    assume "name = ''setBreakpointByUrl''"
    then show ?thesis
      using reach [of "setBreakpointByUrl c"] once_setBreakpointByUrl [OF t]
      by (simp add: DebuggerAgent_answering)
  next
    assume "name = ''removeBreakpoint''"
    then show ?thesis
      using reach [of removeBreakpoint] once_removeBreakpoint [OF t]
      by (simp add: DebuggerAgent_answering)
  next
    assume "name = ''setBreakpointsActive''"
    then show ?thesis
      using reach [of setBreakpointsActive] once_setBreakpointsActive [OF t]
      by (simp add: DebuggerAgent_answering)
  next
    assume "name = ''setOverlayMessage''"
    then show ?thesis
      using reach [of setOverlayMessage] once_setOverlayMessage [OF t]
      by (simp add: DebuggerAgent_answering)
  next
    assume "name = ''evaluateOnCallFrame''"
    then show ?thesis
      using reach [of "evaluateOnCallFrame c"] once_evaluateOnCallFrame [OF t]
      by (simp add: DebuggerAgent_evaluateOnCallFrame)
  next
    assume "name = ''getFunctionDetails''"
    then show ?thesis
      using reach [of "getFunctionDetails c"] once_getFunctionDetails [OF t]
      by (simp add: DebuggerAgent_answering)
  qed
qed

lemma exampleHandler_not_special:
  "specialCommands exampleHandler ''toString'' = None"
  "specialCommands exampleHandler ''Debugger.valueOf'' = None"
  "specialCommands exampleHandler ''Debugger._scriptManager'' = None"
  "specialCommands exampleHandler ''Debugger.pause'' = None"
  by (simp_all add: exampleHandler_def specialCommands_registry)

lemma objectPrototype_examples:
  "objectPrototype ''toString'' = Some Quiet"
  "objectPrototype ''valueOf'' = Some Quiet"
  "objectPrototype ''Missing'' = None"
  "objectPrototype ''missing'' = None"
  by (simp_all add: objectPrototype_def)

lemma DebuggerAgent_examples:
  "DebuggerAgent c ''valueOf'' = None"
  "DebuggerAgent c ''missing'' = None"
  "DebuggerAgent c ''_scriptManager'' = Some Collaborator"
  by (simp_all add: DebuggerAgent_def)

section \<open>The dispatcher\<close>

text \<open>
  Claim C9. For every inbound command object that has no \<open>method\<close> field, dispatch is not
  total: \<open>handleCommand\<close> throws a TypeError when it splits the method name, and so does
  \<open>_handleFrontendMessage\<close> on a message that parses to such an object. The world is the
  one before the call: no response was sent and no diagnostic was logged.
\<close>

theorem handleCommand_without_method_throws:
  assumes "map_of members ''method'' = None"
  shows "handleCommand this (Obj members) w = Throws (TypeError ''split'') w
       \<and> (parse message = Some (Obj members) \<longrightarrow>
            handleFrontendMessage parse this message w = Throws (TypeError ''split'') w)"
  using assms
  by (simp add: handleCommand_def handleFrontendMessage_def getProp_def field_def
      splitString_def throw_def)

theorem handleCommand_without_method_throws_witness:
  "map_of [(''id'', Num 1)] ''method'' = None
   \<and> handleCommand exampleHandler (Obj [(''id'', Num 1)]) quietWorld
       = Throws (TypeError ''split'') quietWorld
   \<and> handleFrontendMessage (\<lambda>m. Some (Obj [(''id'', Num 1)])) exampleHandler ''{id: 1}'' quietWorld
       = Throws (TypeError ''split'') quietWorld"
  using handleCommand_without_method_throws
    [where members = "[(''id'', Num 1)]" and parse = "\<lambda>m. Some (Obj [(''id'', Num 1)])"
       and message = "''{id: 1}''" and this = exampleHandler and w = quietWorld]
  by simp

text \<open>
  Claim C10. Method resolution is a property lookup guarded only by the function check:
  whenever the method name of a command names a function-valued property of a registered
  handler (and no static override takes the command), the dispatcher calls that property
  with the command's parameters and the completion callback for the command's id. Nothing
  sets internal helpers apart: the instance after the theorem dispatches
  \<open>Debugger._sendContinue\<close>, which then takes the parameters as its step action.
\<close>

theorem dispatch_invokes_function_property:
  assumes "agents this domain = Some agent"
    and "agent name = Some (Function f)"
    and "specialCommands this (domain @ ''.'' @ name) = None"
    and "CHR ''.'' \<notin> set domain" and "CHR ''.'' \<notin> set name"
    and "field messageObject ''method'' = Str (domain @ ''.'' @ name)"
  shows "handleCommand this messageObject w =
         f (field messageObject ''params'')
           (MethodResult (field messageObject ''id'') (domain @ ''.'' @ name)) w"
  using assms handleCommand_resolved [of this domain name agent f messageObject w]
  by simp

theorem dispatch_invokes_function_property_witness:
  "agents exampleHandler ''Debugger'' = Some (DebuggerAgent exampleConvert)
   \<and> DebuggerAgent exampleConvert ''_sendContinue'' = Some (Function sendContinue)
   \<and> specialCommands exampleHandler (''Debugger'' @ ''.'' @ ''_sendContinue'') = None
   \<and> CHR ''.'' \<notin> set ''Debugger'' \<and> CHR ''.'' \<notin> set ''_sendContinue''
   \<and> field (Obj [(''id'', Num 5), (''method'', Str ''Debugger._sendContinue''),
                   (''params'', Str ''in'')]) ''method''
       = Str (''Debugger'' @ ''.'' @ ''_sendContinue'')
   \<and> handleCommand exampleHandler
         (Obj [(''id'', Num 5), (''method'', Str ''Debugger._sendContinue''),
               (''params'', Str ''in'')])
         (quietWorld\<lparr>replies := [(Null, Undefined)]\<rparr>)
       = Returns (quietWorld
           \<lparr>trace := [Request ''continue'' (Obj [(''stepaction'', Str ''in'')]),
                      SendResponse (Num 5) Null Undefined,
                      SendEvent ''Debugger.resumed'']\<rparr>)"
proof -
  have a: "agents exampleHandler ''Debugger'' = Some (DebuggerAgent exampleConvert)"
    by (simp add: exampleHandler_def Debugger_registered)
  have s: "specialCommands exampleHandler (''Debugger'' @ ''.'' @ ''_sendContinue'') = None"
    using Debugger_not_special [of exampleConvert Map.empty Map.empty "''_sendContinue''"]
    by (simp add: exampleHandler_def)
  have m: "field (Obj [(''id'', Num 5), (''method'', Str ''Debugger._sendContinue''),
                   (''params'', Str ''in'')]) ''method''
       = Str (''Debugger'' @ ''.'' @ ''_sendContinue'')"
    by (simp add: field_def)
  have run: "sendContinue (Str ''in'') (MethodResult (Num 5) ''Debugger._sendContinue'')
               (quietWorld\<lparr>replies := [(Null, Undefined)]\<rparr>)
       = Returns (quietWorld
           \<lparr>trace := [Request ''continue'' (Obj [(''stepaction'', Str ''in'')]),
                      SendResponse (Num 5) Null Undefined,
                      SendEvent ''Debugger.resumed'']\<rparr>)"
    by (simp add: sendContinue_def request_def asyncCall_def quietWorld_def
        handleMethodResult_truthy action_defs)
  show ?thesis
    using dispatch_invokes_function_property
      [OF a DebuggerAgent_sendContinue s _ _ m,
       of "quietWorld\<lparr>replies := [(Null, Undefined)]\<rparr>"]
      a s m run DebuggerAgent_sendContinue [of exampleConvert]
    by (simp add: field_def)
qed

text \<open>
  Claim C4. A command without an id whose handler completes with a result gets no
  response, and one diagnostic about the discarded result is expected. The code logs
  none: \<open>_handleMethodResult\<close> tests its own local \<open>response\<close>, which is never assigned,
  instead of \<open>result\<close>. Here \<open>Debugger.canSetScriptSource\<close>, which completes with
  \<open>{result: true}\<close>, is dispatched without an id: the world is left as it was.
\<close>

theorem discarded_result_is_not_logged:
  "handleCommand (FrontendCommandHandler c runtimeAgent pageAgent)
     (Obj [(''method'', Str ''Debugger.canSetScriptSource'')]) w = Returns w"
  using handleCommand_Debugger [of c "''canSetScriptSource''" canSetScriptSource
      "Obj [(''method'', Str ''Debugger.canSetScriptSource'')]" runtimeAgent pageAgent w]
  by (simp add: DebuggerAgent_canSetScriptSource field_def canSetScriptSource_def
      handleMethodResult_falsy)

text \<open>
  Claim C1, as stated: every dispatched command whose id is present gets exactly one
  response carrying that id unless routing fails, and then none. Four commands show
  where the code differs.
  With the id \<open>0\<close>, a command that a static override takes gets no response: the
  completion callback tests the id for truthiness.
  \<open>Debugger.enable\<close> with id \<open>5\<close> gets two responses when the wire client connects
  twice: its handler completes once per connect notification.
  \<open>Debugger.toString\<close> with id \<open>6\<close> names a function that the agent inherits from
  \<open>Object.prototype\<close>: the dispatcher calls it, and neither a response nor a diagnostic
  follows.
  \<open>toString\<close> with id \<open>7\<close> names no domain and no method, and gets a response: the
  override table inherits a member of that name.
\<close>

theorem falsy_id_unanswered_and_enable_answered_twice:
  "handleCommand exampleHandler
      (Obj [(''id'', Num 0), (''method'', Str ''Network.enable'')]) quietWorld
     = Returns quietWorld
   \<and> responsesTo (Num 0) (trace quietWorld) = []
   \<and> responsesTo (Num 5) (trace (worldOf (andThen
        (handleCommand exampleHandler (Obj [(''id'', Num 5), (''method'', Str ''Debugger.enable'')]))
        (andThen emitConnect emitConnect)
        quietWorld)))
     = [SendResponse (Num 5) Undefined Undefined, SendResponse (Num 5) Undefined Undefined]
   \<and> handleCommand exampleHandler
        (Obj [(''id'', Num 6), (''method'', Str ''Debugger.toString'')]) quietWorld
     = Returns quietWorld
   \<and> handleCommand exampleHandler
        (Obj [(''id'', Num 7), (''method'', Str ''toString'')]) quietWorld
     = Returns (quietWorld\<lparr>trace := [SendResponse (Num 7) Null Undefined]\<rparr>)"
  by code_simp

text \<open>
  Claim C1, amended. For every dispatched command whose id is truthy:
  \<^item> a static override, or a full method name that the override table inherits from
    \<open>Object.prototype\<close>, sends exactly one response carrying that id;
  \<^item> an unknown domain (neither registered nor inherited), and a method name that is a
    non-function property of the handler or no property of it at all, log a diagnostic
    and send no response;
  \<^item> a method name under which the handler only inherits a function that ignores its
    arguments is called, with no response and no diagnostic;
  \<^item> a function of the handler is called with the command's parameters and a completion
    callback that sends exactly one response carrying that id each time it is called;
  \<^item> the debugger methods listed in \<open>answeringMethods\<close> get exactly one response carrying
    that id in every dispatch that returns after all its backend requests were answered
    (here: that returns with a scripted reply to spare).
\<close>

theorem dispatch_one_response_per_completion:
  assumes "truthy requestId"
    and "field messageObject ''id'' = requestId"
    and "field messageObject ''method'' = Str fullMethodName"
    and "domainName = keyOf (element (splitOn (CHR ''.'') fullMethodName) 0)"
    and "methodName = keyOf (element (splitOn (CHR ''.'') fullMethodName) 1)"
  shows
   "(\<forall>special. specialCommands this fullMethodName = Some special \<and> truthy special \<longrightarrow>
        handleCommand this messageObject w =
        Returns (w\<lparr>trace := trace w @ [SendResponse requestId Null (field special ''result'')]\<rparr>))
  \<and> (\<forall>inherited. specialCommands this fullMethodName = None
          \<and> objectPrototype fullMethodName = Some inherited \<longrightarrow>
        handleCommand this messageObject w =
        Returns (w\<lparr>trace := trace w @ [SendResponse requestId Null Undefined]\<rparr>))
  \<and> (specialCommands this fullMethodName = None \<and> objectPrototype fullMethodName = None
        \<and> agents this domainName = None \<and> objectPrototype domainName = None \<longrightarrow>
        (\<exists>e. isConsoleLog e \<and>
             handleCommand this messageObject w = Returns (w\<lparr>trace := trace w @ [e]\<rparr>)))
  \<and> (\<forall>agent. specialCommands this fullMethodName = None \<and> objectPrototype fullMethodName = None
          \<and> agents this domainName = Some agent
          \<and> (agent methodName = Some Collaborator
               \<or> agent methodName = None
                  \<and> (objectPrototype methodName = None
                      \<or> objectPrototype methodName = Some Prototype)) \<longrightarrow>
        (\<exists>e. isConsoleLog e \<and>
             handleCommand this messageObject w = Returns (w\<lparr>trace := trace w @ [e]\<rparr>)))
  \<and> (\<forall>agent. specialCommands this fullMethodName = None \<and> objectPrototype fullMethodName = None
          \<and> agents this domainName = Some agent
          \<and> agent methodName = None \<and> objectPrototype methodName = Some Quiet \<longrightarrow>
        handleCommand this messageObject w = Returns w)
  \<and> (\<forall>agent f. specialCommands this fullMethodName = None \<and> objectPrototype fullMethodName = None
          \<and> agents this domainName = Some agent
          \<and> agent methodName = Some (Function f) \<longrightarrow>
        handleCommand this messageObject w =
          f (field messageObject ''params'') (MethodResult requestId fullMethodName) w
        \<and> (\<forall>error result w'.
              call (MethodResult requestId fullMethodName) error result w' =
              Returns (w'\<lparr>trace := trace w' @ [SendResponse requestId error result]\<rparr>)))
  \<and> (\<forall>c runtimeAgent pageAgent name w'.
          this = FrontendCommandHandler c runtimeAgent pageAgent
          \<and> fullMethodName = ''Debugger.'' @ name \<and> name \<in> set answeringMethods
          \<and> handleCommand this messageObject w = Returns w' \<and> replies w' \<noteq> [] \<longrightarrow>
        length (responsesTo requestId (trace w')) =
        length (responsesTo requestId (trace w)) + 1)"
proof -
  have obj: "messageObject \<noteq> Undefined" "messageObject \<noteq> Null"
    using assms(3) by (auto simp: field_def)
  note unfold = handleCommand_def getProp_def splitString_def Let_def
  have special: "specialCommands this fullMethodName = Some special \<Longrightarrow> truthy special \<Longrightarrow>
        handleCommand this messageObject w =
        Returns (w\<lparr>trace := trace w @ [SendResponse requestId Null (field special ''result'')]\<rparr>)"
    for special
  proof -
    assume s: "specialCommands this fullMethodName = Some special" and t: "truthy special"
    from t have "special \<noteq> Undefined" "special \<noteq> Null" by auto
    with s t assms obj show ?thesis
      by (simp add: unfold handleMethodResult_truthy)
  qed
  have inherited: "specialCommands this fullMethodName = None \<Longrightarrow>
        objectPrototype fullMethodName = Some inherited \<Longrightarrow>
        handleCommand this messageObject w =
        Returns (w\<lparr>trace := trace w @ [SendResponse requestId Null Undefined]\<rparr>)"
    for inherited
    using assms obj
    by (simp add: unfold handleMethodResult_truthy field_def)
  have nodomain: "specialCommands this fullMethodName = None \<Longrightarrow>
        objectPrototype fullMethodName = None \<Longrightarrow>
        agents this domainName = None \<Longrightarrow> objectPrototype domainName = None \<Longrightarrow>
        (\<exists>e. isConsoleLog e \<and>
             handleCommand this messageObject w = Returns (w\<lparr>trace := trace w @ [e]\<rparr>))"
    using assms obj
    by (auto simp: unfold action_defs
        intro!: exI [of _ "ConsoleLog fmt args" for fmt args])
  have nomethod: "specialCommands this fullMethodName = None \<Longrightarrow>
        objectPrototype fullMethodName = None \<Longrightarrow>
        agents this domainName = Some agent \<Longrightarrow>
        agent methodName = Some Collaborator
          \<or> agent methodName = None
             \<and> (objectPrototype methodName = None \<or> objectPrototype methodName = Some Prototype) \<Longrightarrow>
        (\<exists>e. isConsoleLog e \<and>
             handleCommand this messageObject w = Returns (w\<lparr>trace := trace w @ [e]\<rparr>))"
    for agent
    using assms obj
    by (auto simp: unfold action_defs
        intro!: exI [of _ "ConsoleLog fmt args" for fmt args])
  have quiet: "specialCommands this fullMethodName = None \<Longrightarrow>
        objectPrototype fullMethodName = None \<Longrightarrow>
        agents this domainName = Some agent \<Longrightarrow>
        agent methodName = None \<Longrightarrow> objectPrototype methodName = Some Quiet \<Longrightarrow>
        handleCommand this messageObject w = Returns w"
    for agent
    using assms obj
    by (simp add: unfold skip_def)
  have resolved: "specialCommands this fullMethodName = None \<Longrightarrow>
        objectPrototype fullMethodName = None \<Longrightarrow>
        agents this domainName = Some agent \<Longrightarrow>
        agent methodName = Some (Function f) \<Longrightarrow>
        handleCommand this messageObject w =
          f (field messageObject ''params'') (MethodResult requestId fullMethodName) w"
    for agent f
    using assms obj
    by (simp add: unfold)
  have completion: "call (MethodResult requestId fullMethodName) error result w' =
              Returns (w'\<lparr>trace := trace w' @ [SendResponse requestId error result]\<rparr>)"
    for error result w'
    using assms(1) by (simp add: handleMethodResult_truthy)
  have once: "this = FrontendCommandHandler c runtimeAgent pageAgent \<Longrightarrow>
          fullMethodName = ''Debugger.'' @ name \<Longrightarrow> name \<in> set answeringMethods \<Longrightarrow>
          handleCommand this messageObject w = Returns w' \<Longrightarrow> replies w' \<noteq> [] \<Longrightarrow>
        length (responsesTo requestId (trace w')) =
        length (responsesTo requestId (trace w)) + 1"
    for c runtimeAgent pageAgent name w'
  proof -
    assume h: "this = FrontendCommandHandler c runtimeAgent pageAgent"
      and m: "fullMethodName = ''Debugger.'' @ name" and n: "name \<in> set answeringMethods"
      and run: "handleCommand this messageObject w = Returns w'" and spare: "replies w' \<noteq> []"
    have "field messageObject ''method'' = Str (''Debugger.'' @ name)"
      using assms(3) m by simp
    with assms(1) n have "answersOnce requestId
           (handleCommand (FrontendCommandHandler c runtimeAgent pageAgent) messageObject)"
      using assms(2) by (rule Debugger_answers_once)
    with h run spare show ?thesis
      unfolding answersOnce_def by blast
  qed
  show ?thesis
    using special inherited nodomain nomethod quiet resolved completion once by blast
qed

theorem dispatch_one_response_per_completion_witness:
  "handleCommand exampleHandler
     (Obj [(''id'', Num 3), (''method'', Str ''Network.enable'')]) quietWorld
    = Returns (quietWorld\<lparr>trace := [SendResponse (Num 3) Null Undefined]\<rparr>)
   \<and> handleCommand exampleHandler
     (Obj [(''id'', Num 3), (''method'', Str ''toString'')]) quietWorld
    = Returns (quietWorld\<lparr>trace := [SendResponse (Num 3) Null Undefined]\<rparr>)
   \<and> (\<exists>e. isConsoleLog e \<and>
         handleCommand exampleHandler
           (Obj [(''id'', Num 3), (''method'', Str ''Missing.method'')]) quietWorld
         = Returns (quietWorld\<lparr>trace := [e]\<rparr>))
   \<and> (\<exists>e. isConsoleLog e \<and>
         handleCommand exampleHandler
           (Obj [(''id'', Num 3), (''method'', Str ''Debugger.missing'')]) quietWorld
         = Returns (quietWorld\<lparr>trace := [e]\<rparr>))
   \<and> (\<exists>e. isConsoleLog e \<and>
         handleCommand exampleHandler
           (Obj [(''id'', Num 3), (''method'', Str ''Debugger._scriptManager'')]) quietWorld
         = Returns (quietWorld\<lparr>trace := [e]\<rparr>))
   \<and> handleCommand exampleHandler
         (Obj [(''id'', Num 3), (''method'', Str ''Debugger.valueOf'')]) quietWorld
       = Returns quietWorld
   \<and> handleCommand exampleHandler
         (Obj [(''id'', Num 3), (''method'', Str ''Debugger.canSetScriptSource'')]) quietWorld
       = Returns (quietWorld
           \<lparr>trace := [SendResponse (Num 3) Null (Obj [(''result'', Bool True)])]\<rparr>)
   \<and> handleCommand exampleHandler
         (Obj [(''id'', Num 3), (''method'', Str ''Debugger.pause'')])
         (quietWorld\<lparr>replies := [(Null, Undefined), (Null, Undefined)]\<rparr>)
       = Returns (quietWorld
           \<lparr>trace := [Request ''suspend'' (Obj []), SendResponse (Num 3) Null Undefined,
                      SendBacktraceToFrontend Null],
            replies := [(Null, Undefined)]\<rparr>)
   \<and> length (responsesTo (Num 3)
         [Request ''suspend'' (Obj []), SendResponse (Num 3) Null Undefined,
          SendBacktraceToFrontend Null])
       = length (responsesTo (Num 3) []) + 1"
proof -
  have t: "truthy (Num 3)" by simp
  have tr: "trace quietWorld = []" by (simp add: quietWorld_def)
  have parts:
    "''Network'' = keyOf (element (splitOn (CHR ''.'') ''Network.enable'') 0)"
    "''enable'' = keyOf (element (splitOn (CHR ''.'') ''Network.enable'') 1)"
    "''toString'' = keyOf (element (splitOn (CHR ''.'') ''toString'') 0)"
    "''undefined'' = keyOf (element (splitOn (CHR ''.'') ''toString'') 1)"
    "''Missing'' = keyOf (element (splitOn (CHR ''.'') ''Missing.method'') 0)"
    "''method'' = keyOf (element (splitOn (CHR ''.'') ''Missing.method'') 1)"
    "''Debugger'' = keyOf (element (splitOn (CHR ''.'') ''Debugger.missing'') 0)"
    "''missing'' = keyOf (element (splitOn (CHR ''.'') ''Debugger.missing'') 1)"
    "''Debugger'' = keyOf (element (splitOn (CHR ''.'') ''Debugger._scriptManager'') 0)"
    "''_scriptManager'' = keyOf (element (splitOn (CHR ''.'') ''Debugger._scriptManager'') 1)"
    "''Debugger'' = keyOf (element (splitOn (CHR ''.'') ''Debugger.valueOf'') 0)"
    "''valueOf'' = keyOf (element (splitOn (CHR ''.'') ''Debugger.valueOf'') 1)"
    "''Debugger'' = keyOf (element (splitOn (CHR ''.'') ''Debugger.canSetScriptSource'') 0)"
    "''canSetScriptSource'' = keyOf (element (splitOn (CHR ''.'') ''Debugger.canSetScriptSource'') 1)"
    "''Debugger'' = keyOf (element (splitOn (CHR ''.'') ''Debugger.pause'') 0)"
    "''pause'' = keyOf (element (splitOn (CHR ''.'') ''Debugger.pause'') 1)"
    by (simp_all add: element_def)
  have fields: "field (Obj [(''id'', Num 3), (''method'', Str m)]) ''id'' = Num 3"
    "field (Obj [(''id'', Num 3), (''method'', Str m)]) ''method'' = Str m"
    "field (Obj [(''id'', Num 3), (''method'', Str m)]) ''params'' = Undefined" for m
    by (simp_all add: field_def)
  have dotted: "objectPrototype ''Network.enable'' = None"
    "objectPrototype ''Missing.method'' = None"
    "objectPrototype ''Debugger.missing'' = None"
    "objectPrototype ''Debugger._scriptManager'' = None"
    "objectPrototype ''Debugger.valueOf'' = None"
    "objectPrototype ''Debugger.canSetScriptSource'' = None"
    "objectPrototype ''Debugger.pause'' = None"
    by (simp_all add: objectPrototype_no_separator)
  note a = dispatch_one_response_per_completion
    [OF t fields(1) fields(2) parts(1) parts(2), of exampleHandler quietWorld]
  note a' = dispatch_one_response_per_completion
    [OF t fields(1) fields(2) parts(3) parts(4), of exampleHandler quietWorld]
  note b = dispatch_one_response_per_completion
    [OF t fields(1) fields(2) parts(5) parts(6), of exampleHandler quietWorld]
  note c = dispatch_one_response_per_completion
    [OF t fields(1) fields(2) parts(7) parts(8), of exampleHandler quietWorld]
  note c' = dispatch_one_response_per_completion
    [OF t fields(1) fields(2) parts(9) parts(10), of exampleHandler quietWorld]
  note q = dispatch_one_response_per_completion
    [OF t fields(1) fields(2) parts(11) parts(12), of exampleHandler quietWorld]
  note d = dispatch_one_response_per_completion
    [OF t fields(1) fields(2) parts(13) parts(14), of exampleHandler quietWorld]
  note e = dispatch_one_response_per_completion
    [OF t fields(1) fields(2) parts(15) parts(16), of exampleHandler
       "quietWorld\<lparr>replies := [(Null, Undefined), (Null, Undefined)]\<rparr>"]
  have A: "handleCommand exampleHandler
     (Obj [(''id'', Num 3), (''method'', Str ''Network.enable'')]) quietWorld
    = Returns (quietWorld\<lparr>trace := [SendResponse (Num 3) Null Undefined]\<rparr>)"
    using a [THEN conjunct1, rule_format, of "Obj []"] exampleHandler_special(1)
    by (simp add: field_def tr)
  have A': "handleCommand exampleHandler
     (Obj [(''id'', Num 3), (''method'', Str ''toString'')]) quietWorld
    = Returns (quietWorld\<lparr>trace := [SendResponse (Num 3) Null Undefined]\<rparr>)"
    using a' [THEN conjunct2, THEN conjunct1, rule_format, of Quiet]
      exampleHandler_not_special(1) objectPrototype_examples(1)
    by (simp add: tr)
  have B: "\<exists>e. isConsoleLog e \<and>
         handleCommand exampleHandler
           (Obj [(''id'', Num 3), (''method'', Str ''Missing.method'')]) quietWorld
         = Returns (quietWorld\<lparr>trace := [e]\<rparr>)"
    using b [THEN conjunct2, THEN conjunct2, THEN conjunct1]
      exampleHandler_special(2) dotted(2) exampleHandler_agents(2) objectPrototype_examples(3)
    by (simp add: tr)
  have C: "\<exists>e. isConsoleLog e \<and>
         handleCommand exampleHandler
           (Obj [(''id'', Num 3), (''method'', Str ''Debugger.missing'')]) quietWorld
         = Returns (quietWorld\<lparr>trace := [e]\<rparr>)"
    using c [THEN conjunct2, THEN conjunct2, THEN conjunct2, THEN conjunct1, rule_format,
        of "DebuggerAgent exampleConvert"]
      exampleHandler_special(3) dotted(3) exampleHandler_agents(1) objectPrototype_examples(4)
      DebuggerAgent_examples(2) [of exampleConvert]
    by (simp add: tr)
  have C': "\<exists>e. isConsoleLog e \<and>
         handleCommand exampleHandler
           (Obj [(''id'', Num 3), (''method'', Str ''Debugger._scriptManager'')]) quietWorld
         = Returns (quietWorld\<lparr>trace := [e]\<rparr>)"
    using c' [THEN conjunct2, THEN conjunct2, THEN conjunct2, THEN conjunct1, rule_format,
        of "DebuggerAgent exampleConvert"]
      exampleHandler_not_special(3) dotted(4) exampleHandler_agents(1)
      DebuggerAgent_examples(3) [of exampleConvert]
    by (simp add: tr)
  have Q: "handleCommand exampleHandler
         (Obj [(''id'', Num 3), (''method'', Str ''Debugger.valueOf'')]) quietWorld
       = Returns quietWorld"
    using q [THEN conjunct2, THEN conjunct2, THEN conjunct2, THEN conjunct2, THEN conjunct1,
        rule_format, of "DebuggerAgent exampleConvert"]
      exampleHandler_not_special(2) dotted(5) exampleHandler_agents(1)
      DebuggerAgent_examples(1) [of exampleConvert] objectPrototype_examples(2)
    by simp
  have D: "handleCommand exampleHandler
         (Obj [(''id'', Num 3), (''method'', Str ''Debugger.canSetScriptSource'')]) quietWorld
       = Returns (quietWorld
           \<lparr>trace := [SendResponse (Num 3) Null (Obj [(''result'', Bool True)])]\<rparr>)"
    using d [THEN conjunct2, THEN conjunct2, THEN conjunct2, THEN conjunct2, THEN conjunct2,
        THEN conjunct1, rule_format, of "DebuggerAgent exampleConvert" canSetScriptSource]
      exampleHandler_special(4) dotted(6) exampleHandler_agents(1)
      DebuggerAgent_canSetScriptSource [of exampleConvert]
    by (simp add: canSetScriptSource_def tr)
  have E: "handleCommand exampleHandler
         (Obj [(''id'', Num 3), (''method'', Str ''Debugger.pause'')])
         (quietWorld\<lparr>replies := [(Null, Undefined), (Null, Undefined)]\<rparr>)
       = Returns (quietWorld
           \<lparr>trace := [Request ''suspend'' (Obj []), SendResponse (Num 3) Null Undefined,
                      SendBacktraceToFrontend Null],
            replies := [(Null, Undefined)]\<rparr>)"
    using e [THEN conjunct2, THEN conjunct2, THEN conjunct2, THEN conjunct2, THEN conjunct2,
        THEN conjunct1, rule_format, of "DebuggerAgent exampleConvert" pause]
      exampleHandler_not_special(4) dotted(7) exampleHandler_agents(1)
      DebuggerAgent_pause_resume(1) [of exampleConvert]
      pause_succeeds [of "Num 3" Null
        "quietWorld\<lparr>replies := [(Null, Undefined), (Null, Undefined)]\<rparr>"
        Undefined "[(Null, Undefined)]" Undefined "''Debugger.pause''"]
    by (simp add: fields tr)
  have member: "''pause'' \<in> set answeringMethods"
    unfolding answeringMethods_def by simp
  have F: "length (responsesTo (Num 3)
         [Request ''suspend'' (Obj []), SendResponse (Num 3) Null Undefined,
          SendBacktraceToFrontend Null])
       = length (responsesTo (Num 3) []) + 1"
    using e [THEN conjunct2, THEN conjunct2, THEN conjunct2, THEN conjunct2, THEN conjunct2,
        THEN conjunct2, rule_format, of exampleConvert Map.empty Map.empty "''pause''"
        "quietWorld
           \<lparr>trace := [Request ''suspend'' (Obj []), SendResponse (Num 3) Null Undefined,
                      SendBacktraceToFrontend Null],
            replies := [(Null, Undefined)]\<rparr>"] E member
    by (simp add: exampleHandler_def tr)
  show ?thesis
    by (intro conjI) (rule A, rule A', rule B, rule C, rule C', rule Q, rule D, rule E, rule F)
qed

section \<open>The connect-time bootstrap\<close>

text \<open>
  Claim C7, as stated: given \<open>N\<close> pre-existing backend breakpoints at enable time, exactly
  \<open>N\<close> serial clear requests are issued before the script list request. The breakpoints
  are known to the bootstrap only from the answer to its \<open>listbreakpoints\<close> request. When
  that request fails, whatever breakpoints the backend holds, the bootstrap logs a warning,
  issues no clear request and goes on to request the script list.
\<close>

theorem failed_listing_clears_nothing:
  "trace (worldOf (andThen
      (handleCommand exampleHandler (Obj [(''id'', Num 1), (''method'', Str ''Debugger.enable'')]))
      emitConnect
      (quietWorld\<lparr>replies := [(Str ''listbreakpoints failed'', Undefined)]\<rparr>)))
   = [Connect,
      SendResponse (Num 1) Undefined Undefined,
      Request ''listbreakpoints'' (Obj []),
      ConsoleLog ''Warning: cannot remove old breakpoints. %s'' [Str ''listbreakpoints failed''],
      ScriptsReset,
      scriptsRequest]
   \<and> filter isClearBreakpoint
        [Connect,
         SendResponse (Num 1) Undefined Undefined,
         Request ''listbreakpoints'' (Obj []),
         ConsoleLog ''Warning: cannot remove old breakpoints. %s'' [Str ''listbreakpoints failed''],
         ScriptsReset,
         scriptsRequest]
     = []"
  by code_simp

text \<open>
  Claim C7, amended. When the \<open>listbreakpoints\<close> request at connect time is answered with
  \<open>N\<close> breakpoints (objects), and the wire client answers the clear requests, the bootstrap
  issues exactly \<open>N\<close> of them, in order, each followed by a warning if its answer is an
  error, and only then resets the registry and requests the script list. The requests
  are serial: with only \<open>k < N\<close> answers, \<open>k + 1\<close> clear requests have been issued (the last
  one pending) and no script list request. When the \<open>listbreakpoints\<close> request fails, a
  warning is logged, no clear request is issued, and the script list is requested next.
\<close>

theorem bootstrap_clears_listed_breakpoints_serially:
  assumes "replies w = (lerr, lres) # crs"
  shows "(truthy lerr \<longrightarrow>
            prefix (trace w @ [Request ''listbreakpoints'' (Obj []),
                               ConsoleLog ''Warning: cannot remove old breakpoints. %s'' [lerr],
                               ScriptsReset, scriptsRequest])
                   (trace (worldOf (onDebuggerConnect w))))
       \<and> (\<not> truthy lerr \<and> field lres ''breakpoints'' = Arr bps
            \<and> (\<forall>bp\<in>set bps. bp \<noteq> Undefined \<and> bp \<noteq> Null) \<longrightarrow>
            (length bps \<le> length crs \<longrightarrow>
               prefix (trace w @ Request ''listbreakpoints'' (Obj []) # clearEffects bps crs
                         @ [ScriptsReset, scriptsRequest])
                      (trace (worldOf (onDebuggerConnect w)))
               \<and> length (filter isClearBreakpoint (clearEffects bps crs)) = length bps)
          \<and> (length crs < length bps \<longrightarrow>
               onDebuggerConnect w =
                 Returns (w\<lparr>trace := trace w @ Request ''listbreakpoints'' (Obj [])
                                     # clearEffects bps crs
                                     @ [ClearBreakpoint (field (bps ! length crs) ''number'')],
                            replies := []\<rparr>)
               \<and> length (filter isClearBreakpoint (clearEffects bps crs)) = length crs))"
proof (intro conjI impI)
  assume failed: "truthy lerr"
  let ?w1 = "w\<lparr>trace := trace w
                 @ [Request ''listbreakpoints'' (Obj []),
                    ConsoleLog ''Warning: cannot remove old breakpoints. %s'' [lerr]],
              replies := crs\<rparr>"
  have "onDebuggerConnect w = waterfall [reloadScripts, sendBacktraceIfPaused] ?w1"
    using assms failed by (rule onDebuggerConnect_list_fails)
  then show "prefix (trace w @ [Request ''listbreakpoints'' (Obj []),
                               ConsoleLog ''Warning: cannot remove old breakpoints. %s'' [lerr],
                               ScriptsReset, scriptsRequest])
                   (trace (worldOf (onDebuggerConnect w)))"
    using reload_prefix [of ?w1] by (simp del: waterfall.simps)
next
  assume ok: "\<not> truthy lerr \<and> field lres ''breakpoints'' = Arr bps
            \<and> (\<forall>bp\<in>set bps. bp \<noteq> Undefined \<and> bp \<noteq> Null)"
    and le: "length bps \<le> length crs"
  let ?done = "take (length bps) crs" and ?rest = "drop (length bps) crs"
  let ?w1 = "w\<lparr>trace := trace w @ Request ''listbreakpoints'' (Obj []) # clearEffects bps ?done,
               replies := ?rest\<rparr>"
  have split: "replies w = (lerr, lres) # ?done @ ?rest" using assms by simp
  have len: "length ?done = length bps" using le by simp
  have "onDebuggerConnect w = waterfall [reloadScripts, sendBacktraceIfPaused] ?w1"
    using split ok [THEN conjunct1] ok [THEN conjunct2, THEN conjunct1] len
      ok [THEN conjunct2, THEN conjunct2]
    by (rule onDebuggerConnect_after_clears)
  then show "prefix (trace w @ Request ''listbreakpoints'' (Obj []) # clearEffects bps crs
                      @ [ScriptsReset, scriptsRequest])
                   (trace (worldOf (onDebuggerConnect w)))"
    using reload_prefix [of ?w1] le by (simp add: clearEffects_take del: waterfall.simps)
next
  assume le: "length bps \<le> length crs"
  show "length (filter isClearBreakpoint (clearEffects bps crs)) = length bps"
    using le by (simp add: count_clearEffects)
next
  assume ok: "\<not> truthy lerr \<and> field lres ''breakpoints'' = Arr bps
            \<and> (\<forall>bp\<in>set bps. bp \<noteq> Undefined \<and> bp \<noteq> Null)"
    and lt: "length crs < length bps"
  show "onDebuggerConnect w =
              Returns (w\<lparr>trace := trace w @ Request ''listbreakpoints'' (Obj []) # clearEffects bps crs
                                  @ [ClearBreakpoint (field (bps ! length crs) ''number'')],
                         replies := []\<rparr>)"
    using removeAllBreakpoints_stalls [OF assms ok [THEN conjunct1]
        ok [THEN conjunct2, THEN conjunct1] lt ok [THEN conjunct2, THEN conjunct2]]
    by (simp add: onDebuggerConnect_def)
next
  assume lt: "length crs < length bps"
  show "length (filter isClearBreakpoint (clearEffects bps crs)) = length crs"
    using lt by (simp add: count_clearEffects)
qed

theorem bootstrap_clears_listed_breakpoints_serially_witness:
  "prefix ([Request ''listbreakpoints'' (Obj []),
            ConsoleLog ''Warning: cannot remove old breakpoints. %s'' [Str ''not connected''],
            ScriptsReset,
            scriptsRequest])
     (trace (worldOf (onDebuggerConnect
        (quietWorld\<lparr>replies := [(Str ''not connected'', Undefined), (Null, Arr [])]\<rparr>))))
   \<and> prefix ([Request ''listbreakpoints'' (Obj []),
            ClearBreakpoint (Num 1),
            ConsoleLog ''Warning: cannot remove old breakpoint %d. %s'' [Num 1, Str ''gone''],
            ClearBreakpoint (Num 2),
            ScriptsReset,
            scriptsRequest])
     (trace (worldOf (onDebuggerConnect
        (quietWorld\<lparr>replies :=
           [(Null, Obj [(''breakpoints'', Arr [Obj [(''number'', Num 1)], Obj [(''number'', Num 2)]])]),
            (Str ''gone'', Undefined),
            (Null, Undefined)]\<rparr>))))
   \<and> onDebuggerConnect
        (quietWorld\<lparr>replies :=
           [(Null, Obj [(''breakpoints'', Arr [Obj [(''number'', Num 1)], Obj [(''number'', Num 2)]])]),
            (Str ''gone'', Undefined)]\<rparr>)
     = Returns (quietWorld\<lparr>trace :=
           [Request ''listbreakpoints'' (Obj []),
            ClearBreakpoint (Num 1),
            ConsoleLog ''Warning: cannot remove old breakpoint %d. %s'' [Num 1, Str ''gone''],
            ClearBreakpoint (Num 2)]\<rparr>)"
proof -
  let ?bps = "[Obj [(''number'', Num 1)], Obj [(''number'', Num 2)]]"
  let ?lres = "Obj [(''breakpoints'', Arr ?bps)]"
  have r0: "replies (quietWorld\<lparr>replies := [(Str ''not connected'', Undefined), (Null, Arr [])]\<rparr>)
            = (Str ''not connected'', Undefined) # [(Null, Arr [])]" by simp
  have r1: "replies (quietWorld\<lparr>replies := [(Null, ?lres), (Str ''gone'', Undefined), (Null, Undefined)]\<rparr>)
            = (Null, ?lres) # [(Str ''gone'', Undefined), (Null, Undefined)]" by simp
  have r2: "replies (quietWorld\<lparr>replies := [(Null, ?lres), (Str ''gone'', Undefined)]\<rparr>)
            = (Null, ?lres) # [(Str ''gone'', Undefined)]" by simp
  have a: "prefix ([Request ''listbreakpoints'' (Obj []),
            ConsoleLog ''Warning: cannot remove old breakpoints. %s'' [Str ''not connected''],
            ScriptsReset,
            scriptsRequest])
     (trace (worldOf (onDebuggerConnect
        (quietWorld\<lparr>replies := [(Str ''not connected'', Undefined), (Null, Arr [])]\<rparr>))))"
    using bootstrap_clears_listed_breakpoints_serially [OF r0, of "[]"]
    by (simp add: quietWorld_def)
  have b: "prefix ([Request ''listbreakpoints'' (Obj []),
            ClearBreakpoint (Num 1),
            ConsoleLog ''Warning: cannot remove old breakpoint %d. %s'' [Num 1, Str ''gone''],
            ClearBreakpoint (Num 2),
            ScriptsReset,
            scriptsRequest])
     (trace (worldOf (onDebuggerConnect
        (quietWorld\<lparr>replies := [(Null, ?lres), (Str ''gone'', Undefined), (Null, Undefined)]\<rparr>))))"
    using bootstrap_clears_listed_breakpoints_serially [OF r1, of ?bps]
    by (simp add: field_def quietWorld_def)
  have c: "onDebuggerConnect
        (quietWorld\<lparr>replies := [(Null, ?lres), (Str ''gone'', Undefined)]\<rparr>)
     = Returns (quietWorld\<lparr>trace :=
           [Request ''listbreakpoints'' (Obj []),
            ClearBreakpoint (Num 1),
            ConsoleLog ''Warning: cannot remove old breakpoint %d. %s'' [Num 1, Str ''gone''],
            ClearBreakpoint (Num 2)]\<rparr>)"
    using bootstrap_clears_listed_breakpoints_serially [OF r2, of ?bps]
    by (simp add: field_def quietWorld_def)
  show ?thesis by (intro conjI) (rule a, rule b, rule c)
qed

text \<open>
  Claim C3, as stated: a failure in step 2 of the bootstrap is propagated as the error
  result of the enable call. Here \<open>Debugger.enable\<close> is dispatched with id \<open>1\<close>, the
  wire client connects, lists no breakpoint and fails the script list request: the one
  response to the command is the success response, sent before the bootstrap began.
\<close>

theorem enable_reports_success_despite_reload_failure:
  "trace (worldOf (andThen
      (handleCommand exampleHandler (Obj [(''id'', Num 1), (''method'', Str ''Debugger.enable'')]))
      emitConnect
      (quietWorld\<lparr>replies := [(Null, Obj [(''breakpoints'', Arr [])]),
                              (Str ''scripts request failed'', Undefined)],
                  isRunning := Bool False\<rparr>)))
   = [Connect,
      SendResponse (Num 1) Undefined Undefined,
      Request ''listbreakpoints'' (Obj []),
      ScriptsReset,
      scriptsRequest]"
  by code_simp

text \<open>
  Claim C3, amended. A failure of the script list request ends the bootstrap: no script
  is added and the paused-state notification of step 3 is not sent. It is not propagated
  to the enable call: the only response to it is the success response sent when the
  connect notification arrived, before the bootstrap began, and the error is dropped.
\<close>

theorem script_reload_failure_is_dropped:
  assumes "truthy requestId"
    and "connectListeners w = [EnableListener (MethodResult requestId name)]"
    and "replies w = (lerr, lres) # crs @ (serr, sres) # rest"
    and "\<not> truthy lerr"
    and "field lres ''breakpoints'' = Arr bps"
    and "length crs = length bps"
    and "\<forall>bp\<in>set bps. bp \<noteq> Undefined \<and> bp \<noteq> Null"
    and "truthy serr"
  shows "emitConnect w =
         Returns (w\<lparr>trace := trace w @ SendResponse requestId Undefined Undefined
                             # Request ''listbreakpoints'' (Obj [])
                             # clearEffects bps crs @ [ScriptsReset, scriptsRequest],
                    replies := rest\<rparr>)"
proof -
  let ?w0 = "w\<lparr>trace := trace w @ [SendResponse requestId Undefined Undefined]\<rparr>"
  let ?w1 = "?w0\<lparr>trace := trace ?w0 @ Request ''listbreakpoints'' (Obj []) # clearEffects bps crs,
               replies := (serr, sres) # rest\<rparr>"
  have "emitConnect w = onDebuggerConnect ?w0"
    using assms(2,1) by (rule emitConnect_single)
  also have "\<dots> = waterfall [reloadScripts, sendBacktraceIfPaused] ?w1"
    using onDebuggerConnect_after_clears [of ?w0 lerr lres crs "(serr, sres) # rest" bps] assms
    by simp
  also have "\<dots> = Returns (?w1\<lparr>trace := trace ?w1 @ [ScriptsReset, scriptsRequest], replies := rest\<rparr>)"
    using assms(8) by (intro reload_fails [of ?w1 serr sres rest]) simp_all
  finally show ?thesis by simp
qed

theorem script_reload_failure_is_dropped_witness:
  "emitConnect
     (quietWorld\<lparr>replies := [(Null, Obj [(''breakpoints'', Arr [Obj [(''number'', Num 4)]])]),
                             (Null, Undefined),
                             (Str ''scripts request failed'', Undefined)],
                 connectListeners := [EnableListener (MethodResult (Num 1) ''Debugger.enable'')],
                 isRunning := Bool False\<rparr>)
   = Returns
     (quietWorld\<lparr>trace := [SendResponse (Num 1) Undefined Undefined,
                           Request ''listbreakpoints'' (Obj []),
                           ClearBreakpoint (Num 4),
                           ScriptsReset,
                           scriptsRequest],
                 connectListeners := [EnableListener (MethodResult (Num 1) ''Debugger.enable'')],
                 isRunning := Bool False\<rparr>)"
proof -
  let ?bps = "[Obj [(''number'', Num 4)]]"
  let ?lres = "Obj [(''breakpoints'', Arr ?bps)]"
  let ?w = "quietWorld\<lparr>replies := [(Null, ?lres), (Null, Undefined),
                             (Str ''scripts request failed'', Undefined)],
                 connectListeners := [EnableListener (MethodResult (Num 1) ''Debugger.enable'')],
                 isRunning := Bool False\<rparr>"
  have t: "truthy (Num 1)" by simp
  have l: "connectListeners ?w = [EnableListener (MethodResult (Num 1) ''Debugger.enable'')]"
    by simp
  have r: "replies ?w = (Null, ?lres) # [(Null, Undefined)] @ (Str ''scripts request failed'', Undefined) # []"
    by simp
  have n: "\<not> truthy Null" by simp
  have f: "field ?lres ''breakpoints'' = Arr ?bps" by (simp add: field_def)
  have len: "length [(Null, Undefined)] = length ?bps" by simp
  have b: "\<forall>bp\<in>set ?bps. bp \<noteq> Undefined \<and> bp \<noteq> Null" by simp
  have s: "truthy (Str ''scripts request failed'')" by simp
  show ?thesis
    using script_reload_failure_is_dropped [OF t l r n f len b s]
    by (simp add: field_def quietWorld_def)
qed

text \<open>
  Claim C8, as stated: an enable call consumes exactly one connect notification, and
  later notifications never trigger its callback and bootstrap again. The listener is
  registered with \<open>on\<close> and never removed: after one \<open>Debugger.enable\<close> with id \<open>1\<close>, two
  connect notifications send two responses with that id and start the bootstrap twice.
\<close>

theorem enable_listener_runs_twice:
  "trace (worldOf (andThen
      (handleCommand exampleHandler (Obj [(''id'', Num 1), (''method'', Str ''Debugger.enable'')]))
      (andThen emitConnect emitConnect)
      quietWorld))
   = [Connect,
      SendResponse (Num 1) Undefined Undefined,
      Request ''listbreakpoints'' (Obj []),
      SendResponse (Num 1) Undefined Undefined,
      Request ''listbreakpoints'' (Obj [])]"
  by code_simp

text \<open>
  Claim C8, amended. An enable call registers a connect listener and opens the connection.
  Every connect notification after the call runs that listener: it sends one more
  response for the enable command, then runs the bootstrap, and the listener is still
  registered when the bootstrap has run, so the next notification does the same.
\<close>

theorem every_connect_notification_runs_enable_listener:
  assumes "truthy requestId"
    and "field messageObject ''id'' = requestId"
    and "field messageObject ''method'' = Str ''Debugger.enable''"
    and "connectListeners w = []"
    and "connectListeners w' = [EnableListener (MethodResult requestId ''Debugger.enable'')]"
  shows "handleCommand (FrontendCommandHandler c runtimeAgent pageAgent) messageObject w =
           Returns (w\<lparr>connectListeners := [EnableListener (MethodResult requestId ''Debugger.enable'')],
                      trace := trace w @ [Connect]\<rparr>)
       \<and> emitConnect w' =
           onDebuggerConnect (w'\<lparr>trace := trace w' @ [SendResponse requestId Undefined Undefined]\<rparr>)
       \<and> connectListeners (worldOf (emitConnect w')) = connectListeners w'"
proof (intro conjI)
  show "handleCommand (FrontendCommandHandler c runtimeAgent pageAgent) messageObject w =
           Returns (w\<lparr>connectListeners := [EnableListener (MethodResult requestId ''Debugger.enable'')],
                      trace := trace w @ [Connect]\<rparr>)"
    using handleCommand_Debugger [of c "''enable''" enable messageObject runtimeAgent pageAgent w]
      assms(2,3,4)
    by (simp add: DebuggerAgent_enable enable_def onConnect_def andThen_def emit_def)
  show run: "emitConnect w' =
           onDebuggerConnect (w'\<lparr>trace := trace w' @ [SendResponse requestId Undefined Undefined]\<rparr>)"
    using assms(5,1) by (rule emitConnect_single)
  show "connectListeners (worldOf (emitConnect w')) = connectListeners w'"
    using keeps_onDebuggerConnect run by (simp add: keepsListeners_def)
qed

theorem every_connect_notification_runs_enable_listener_witness:
  "handleCommand exampleHandler
      (Obj [(''id'', Num 1), (''method'', Str ''Debugger.enable'')]) quietWorld
    = Returns (quietWorld\<lparr>connectListeners := [EnableListener (MethodResult (Num 1) ''Debugger.enable'')],
                          trace := [Connect]\<rparr>)
   \<and> emitConnect
        (quietWorld\<lparr>connectListeners := [EnableListener (MethodResult (Num 1) ''Debugger.enable'')],
                    trace := [Connect]\<rparr>)
      = onDebuggerConnect
         (quietWorld\<lparr>connectListeners := [EnableListener (MethodResult (Num 1) ''Debugger.enable'')],
                     trace := [Connect, SendResponse (Num 1) Undefined Undefined]\<rparr>)
   \<and> connectListeners (worldOf (emitConnect
        (quietWorld\<lparr>connectListeners := [EnableListener (MethodResult (Num 1) ''Debugger.enable'')],
                    trace := [Connect]\<rparr>)))
      = [EnableListener (MethodResult (Num 1) ''Debugger.enable'')]"
proof -
  let ?m = "Obj [(''id'', Num 1), (''method'', Str ''Debugger.enable'')]"
  let ?w' = "quietWorld\<lparr>connectListeners := [EnableListener (MethodResult (Num 1) ''Debugger.enable'')],
                    trace := [Connect]\<rparr>"
  have t: "truthy (Num 1)" by simp
  have i: "field ?m ''id'' = Num 1" by (simp add: field_def)
  have m: "field ?m ''method'' = Str ''Debugger.enable''" by (simp add: field_def)
  have l: "connectListeners quietWorld = []" by (simp add: quietWorld_def)
  have l': "connectListeners ?w' = [EnableListener (MethodResult (Num 1) ''Debugger.enable'')]"
    by simp
  note th = every_connect_notification_runs_enable_listener
      [OF t i m l l', of exampleConvert Map.empty Map.empty]
  have a: "handleCommand exampleHandler ?m quietWorld
    = Returns (quietWorld\<lparr>connectListeners := [EnableListener (MethodResult (Num 1) ''Debugger.enable'')],
                          trace := [Connect]\<rparr>)"
    using th [THEN conjunct1] by (simp add: exampleHandler_def quietWorld_def)
  have b: "emitConnect ?w' = onDebuggerConnect
         (quietWorld\<lparr>connectListeners := [EnableListener (MethodResult (Num 1) ''Debugger.enable'')],
                     trace := [Connect, SendResponse (Num 1) Undefined Undefined]\<rparr>)"
    using th [THEN conjunct2, THEN conjunct1] by simp
  have c: "connectListeners (worldOf (emitConnect ?w'))
      = [EnableListener (MethodResult (Num 1) ''Debugger.enable'')]"
    using th [THEN conjunct2, THEN conjunct2] by simp
  show ?thesis
    by (intro conjI) (rule a, rule b, rule c)
qed

section \<open>Commands of the debugger domain\<close>

text \<open>
  Claim C2, as stated: for pause, resume and the three step commands, when the backend
  request succeeds the front-end notification is emitted strictly before the command's
  response. The callbacks call \<open>done(error)\<close> first and notify afterwards: for
  \<open>{id: 7, method: "Debugger.pause"}\<close> the response is in the trace before the pause
  notification.
\<close>

theorem pause_response_precedes_notification:
  "trace (worldOf (handleCommand exampleHandler
      (Obj [(''id'', Num 7), (''method'', Str ''Debugger.pause'')])
      (quietWorld\<lparr>replies := [(Null, Undefined)]\<rparr>)))
   = [Request ''suspend'' (Obj []),
      SendResponse (Num 7) Null Undefined,
      SendBacktraceToFrontend Null]
   \<and> \<not> occursBefore (SendBacktraceToFrontend Null) (SendResponse (Num 7) Null Undefined)
        [Request ''suspend'' (Obj []),
         SendResponse (Num 7) Null Undefined,
         SendBacktraceToFrontend Null]"
  by code_simp

text \<open>
  Claim C2, amended. For pause, resume, stepOver, stepInto and stepOut with a truthy id,
  when the backend request (suspend or continue) succeeds, the command's response is sent
  first and the front-end notification (the pause notification, or the
  \<open>Debugger.resumed\<close> event) is emitted right after it.
\<close>

theorem response_is_sent_before_notification:
  assumes "truthy requestId"
    and "\<not> truthy error"
    and "replies w = (error, result) # rest"
    and "field messageObject ''id'' = requestId"
    and "field messageObject ''method'' = Str (''Debugger.'' @ name)"
    and "(name, backendRequest, notification) \<in> set
           [(''pause'', Request ''suspend'' (Obj []), SendBacktraceToFrontend Null),
            (''resume'', Request ''continue'' Undefined, SendEvent ''Debugger.resumed''),
            (''stepOver'', Request ''continue'' (Obj [(''stepaction'', Str ''next'')]),
               SendEvent ''Debugger.resumed''),
            (''stepInto'', Request ''continue'' (Obj [(''stepaction'', Str ''in'')]),
               SendEvent ''Debugger.resumed''),
            (''stepOut'', Request ''continue'' (Obj [(''stepaction'', Str ''out'')]),
               SendEvent ''Debugger.resumed'')]"
  shows "handleCommand (FrontendCommandHandler c runtimeAgent pageAgent) messageObject w =
         Returns (w\<lparr>trace := trace w
                     @ [backendRequest, SendResponse requestId error Undefined, notification],
                    replies := rest\<rparr>)"
proof -
  note run = handleCommand_Debugger [of c name _ messageObject runtimeAgent pageAgent w]
  consider "name = ''pause''" | "name = ''resume''" | "name = ''stepOver''"
    | "name = ''stepInto''" | "name = ''stepOut''"
    using assms(6) by auto
  then show ?thesis
  proof cases
    case 1
    with assms show ?thesis
      using run [of pause] by (simp add: DebuggerAgent_pause_resume pause_succeeds)
  next
    case 2
    with assms show ?thesis
      using run [of resume]
      by (simp add: DebuggerAgent_pause_resume resume_def sendContinue_succeeds)
  next
    case 3
    with assms show ?thesis
      using run [of stepOver]
      by (simp add: DebuggerAgent_pause_resume stepOver_def sendContinue_succeeds)
  next
    case 4
    with assms show ?thesis
      using run [of stepInto]
      by (simp add: DebuggerAgent_pause_resume stepInto_def sendContinue_succeeds)
  next
    case 5
    with assms show ?thesis
      using run [of stepOut]
      by (simp add: DebuggerAgent_pause_resume stepOut_def sendContinue_succeeds)
  qed
qed

theorem response_is_sent_before_notification_witness:
  "handleCommand exampleHandler
      (Obj [(''id'', Num 7), (''method'', Str ''Debugger.pause'')])
      (quietWorld\<lparr>replies := [(Null, Undefined)]\<rparr>)
    = Returns (quietWorld\<lparr>trace := [Request ''suspend'' (Obj []),
                                     SendResponse (Num 7) Null Undefined,
                                     SendBacktraceToFrontend Null]\<rparr>)
   \<and> handleCommand exampleHandler
      (Obj [(''id'', Num 8), (''method'', Str ''Debugger.stepInto'')])
      (quietWorld\<lparr>replies := [(Undefined, Undefined)]\<rparr>)
    = Returns (quietWorld\<lparr>trace := [Request ''continue'' (Obj [(''stepaction'', Str ''in'')]),
                                     SendResponse (Num 8) Undefined Undefined,
                                     SendEvent ''Debugger.resumed'']\<rparr>)"
proof -
  have a: "handleCommand exampleHandler
      (Obj [(''id'', Num 7), (''method'', Str ''Debugger.pause'')])
      (quietWorld\<lparr>replies := [(Null, Undefined)]\<rparr>)
    = Returns (quietWorld\<lparr>trace := [Request ''suspend'' (Obj []),
                                     SendResponse (Num 7) Null Undefined,
                                     SendBacktraceToFrontend Null]\<rparr>)"
    using response_is_sent_before_notification
      [of "Num 7" Null "quietWorld\<lparr>replies := [(Null, Undefined)]\<rparr>" Undefined "[]"
          "Obj [(''id'', Num 7), (''method'', Str ''Debugger.pause'')]" "''pause''"
          "Request ''suspend'' (Obj [])" "SendBacktraceToFrontend Null"
          exampleConvert Map.empty Map.empty]
    by (simp add: field_def exampleHandler_def quietWorld_def)
  have b: "handleCommand exampleHandler
      (Obj [(''id'', Num 8), (''method'', Str ''Debugger.stepInto'')])
      (quietWorld\<lparr>replies := [(Undefined, Undefined)]\<rparr>)
    = Returns (quietWorld\<lparr>trace := [Request ''continue'' (Obj [(''stepaction'', Str ''in'')]),
                                     SendResponse (Num 8) Undefined Undefined,
                                     SendEvent ''Debugger.resumed'']\<rparr>)"
    using response_is_sent_before_notification
      [of "Num 8" Undefined "quietWorld\<lparr>replies := [(Undefined, Undefined)]\<rparr>" Undefined "[]"
          "Obj [(''id'', Num 8), (''method'', Str ''Debugger.stepInto'')]" "''stepInto''"
          "Request ''continue'' (Obj [(''stepaction'', Str ''in'')])" "SendEvent ''Debugger.resumed''"
          exampleConvert Map.empty Map.empty]
    by (simp add: field_def exampleHandler_def quietWorld_def)
  show ?thesis by (intro conjI) (rule a, rule b)
qed

text \<open>
  Claim C6, as stated: for evaluateOnCallFrame a backend transport failure propagates as
  the command's error result, and only a thrown expression becomes a success result with
  the thrown flag. The callback of the \<open>evaluate\<close> request never passes an error to
  \<open>done\<close>: an error \<open>connection closed\<close> from the wire client gives a response whose
  error is \<open>null\<close> and whose result wraps that message with \<open>wasThrown: true\<close>.
\<close>

theorem transport_failure_becomes_thrown_result:
  "trace (worldOf (handleCommand exampleHandler
      (Obj [(''id'', Num 3), (''method'', Str ''Debugger.evaluateOnCallFrame''),
            (''params'', Obj [(''expression'', Str ''x''), (''callFrameId'', Num 0)])])
      (quietWorld\<lparr>replies := [(Str ''connection closed'', Undefined)]\<rparr>)))
   = [Request ''evaluate'' (Obj [(''expression'', Str ''x''), (''frame'', Num 0)]),
      SendResponse (Num 3) Null
        (Obj [(''result'', Obj [(''type'', Str ''object''), (''objectId'', Str ''ERROR''),
                               (''description'', Str ''connection closed'')]),
              (''wasThrown'', Bool True)])]"
  by code_simp

text \<open>
  Claim C6, amended. For evaluateOnCallFrame (with a truthy id and a parameter object),
  every error that the wire client reports for the \<open>evaluate\<close> request, a transport
  failure and a thrown expression alike, yields a success response: its error is
  \<open>null\<close>, its result wraps the converted error and its thrown flag is true, provided the
  converter returns a truthy value, as an object is. Without an error the result is the
  converted value and the flag is false. The call never completes with an error.
\<close>

theorem evaluate_error_becomes_thrown_result:
  assumes "truthy requestId"
    and "field messageObject ''id'' = requestId"
    and "field messageObject ''method'' = Str ''Debugger.evaluateOnCallFrame''"
    and "field messageObject ''params'' = params"
    and "params \<noteq> Undefined" and "params \<noteq> Null"
    and "replies w = (err, result) # rest"
    and "truthy err \<longrightarrow> truthy (v8ErrorToInspectorError c err)"
  shows "handleCommand (FrontendCommandHandler c runtimeAgent pageAgent) messageObject w =
         Returns (w\<lparr>trace := trace w
                     @ [Request ''evaluate''
                          (Obj [(''expression'', field params ''expression''),
                                (''frame'', jsNumber c (field params ''callFrameId''))]),
                        SendResponse requestId Null
                          (Obj [(''result'',
                                   if truthy err then v8ErrorToInspectorError c err
                                   else v8ResultToInspectorResult c result),
                                (''wasThrown'', Bool (truthy err))])],
                    replies := rest\<rparr>)"
  using handleCommand_Debugger [of c "''evaluateOnCallFrame''" "evaluateOnCallFrame c"
      messageObject runtimeAgent pageAgent w] assms
  by (simp add: DebuggerAgent_evaluateOnCallFrame evaluateOnCallFrame_def getProp_def
      request_def asyncCall_def handleMethodResult_truthy Let_def)

theorem evaluate_error_becomes_thrown_result_witness:
  "handleCommand exampleHandler
      (Obj [(''id'', Num 3), (''method'', Str ''Debugger.evaluateOnCallFrame''),
            (''params'', Obj [(''expression'', Str ''x''), (''callFrameId'', Num 0)])])
      (quietWorld\<lparr>replies := [(Str ''ReferenceError: x is not defined'', Undefined)]\<rparr>)
   = Returns (quietWorld\<lparr>trace :=
      [Request ''evaluate'' (Obj [(''expression'', Str ''x''), (''frame'', Num 0)]),
       SendResponse (Num 3) Null
        (Obj [(''result'', Obj [(''type'', Str ''object''), (''objectId'', Str ''ERROR''),
                               (''description'', Str ''ReferenceError: x is not defined'')]),
              (''wasThrown'', Bool True)])]\<rparr>)"
  using evaluate_error_becomes_thrown_result
    [of "Num 3"
        "Obj [(''id'', Num 3), (''method'', Str ''Debugger.evaluateOnCallFrame''),
            (''params'', Obj [(''expression'', Str ''x''), (''callFrameId'', Num 0)])]"
        "Obj [(''expression'', Str ''x''), (''callFrameId'', Num 0)]"
        "quietWorld\<lparr>replies := [(Str ''ReferenceError: x is not defined'', Undefined)]\<rparr>"
        "Str ''ReferenceError: x is not defined''" Undefined "[]"
        exampleConvert Map.empty Map.empty]
  by (simp add: field_def exampleHandler_def quietWorld_def exampleConvert_def)

text \<open>
  Claim C5, as stated: when the live edit reports that a step-in is required, a step-into
  continue request is issued and the response is deferred until the next-pause callback
  fires. When the continue request fails, the response is not deferred: here the wire
  client answers the continue request with the error \<open>not paused\<close>, and the response is
  sent from the callback of that request, after an error line on the front-end console
  and a fetch of the call frames.
\<close>

theorem failed_step_into_is_answered_at_once:
  "trace (worldOf (handleCommand exampleHandler
      (Obj [(''id'', Num 3), (''method'', Str ''Debugger.setScriptSource''),
            (''params'', Obj [(''scriptId'', Str ''5''), (''scriptSource'', Str ''x'')])])
      (quietWorld\<lparr>replies :=
         [(Null, Obj [(''result'', Obj [(''stack_update_needs_step_in'', Bool True)])]),
          (Str ''not paused'', Undefined),
          (Null, Arr [Str ''frame''])]\<rparr>)))
   = [Request ''changelive''
        (Obj [(''script_id'', Str ''5''), (''new_source'', Str ''x''), (''preview_only'', Bool False)]),
      Request ''continue'' (Obj [(''stepAction'', Str ''in'')]),
      SendLogToConsole ''error''
        [Str ''Cannot execute step-into after a script changed: '', Str ''not paused'',
         Str [CHR 0x0A],
         Str ''Please perform step-into yourself from the GUI.''],
      FetchCallFrames,
      SendResponse (Num 3) Null
        (Obj [(''callFrames'', Arr [Str ''frame'']),
              (''result'', Obj [(''stack_update_needs_step_in'', Bool True)])])]"
  by code_simp

text \<open>
  Claim C5, amended. After a successful \<open>changelive\<close> request with a truthy id, the
  response of setScriptSource follows the outcome the backend reports.
  Unchanged: the call-frame sequence of the response is empty.
  Stack modified: the call frames are fetched from the break notifier, and the response
  carries the fetched frames; when the fetch fails, an error line goes to the front-end
  console and the response carries no frames.
  Step-in required: the next-pause callback is armed and a continue request with
  \<open>{stepAction: 'in'}\<close> is issued. When that request succeeds, no response is sent until
  the armed callback runs, which fetches the call frames and responds with them. When it
  fails, an error line goes to the front-end console and the response is sent at once,
  with freshly fetched frames.
\<close>

theorem setScriptSource_follows_live_edit_outcome:
  assumes "truthy requestId"
    and "field messageObject ''id'' = requestId"
    and "field messageObject ''method'' = Str ''Debugger.setScriptSource''"
    and "field messageObject ''params'' = params"
    and "params \<noteq> Undefined" and "params \<noteq> Null"
    and "replies w = (err, response) # rest" and "\<not> truthy err"
    and "field response ''result'' = outcome"
    and "outcome \<noteq> Undefined" and "outcome \<noteq> Null"
    and "changelive = Request ''changelive''
           (Obj [(''script_id'', inspectorScriptIdToV8Id c (field params ''scriptId'')),
                 (''new_source'', field params ''scriptSource''),
                 (''preview_only'', Bool False)])"
    and "stepIntoRequest = Request ''continue'' (Obj [(''stepAction'', Str ''in'')])"
    and "completion = MethodResult requestId ''Debugger.setScriptSource''"
    and "this = FrontendCommandHandler c runtimeAgent pageAgent"
  shows
   "(\<not> truthy (field outcome ''stack_update_needs_step_in'')
       \<and> \<not> truthy (field outcome ''stack_modified'') \<longrightarrow>
     handleCommand this messageObject w =
       Returns (w\<lparr>trace := trace w
                   @ [changelive,
                      SendResponse requestId Null
                        (Obj [(''callFrames'', Arr []), (''result'', outcome)])],
                  replies := rest\<rparr>))
  \<and> (\<forall>ferr frames rest'.
       \<not> truthy (field outcome ''stack_update_needs_step_in'')
       \<and> truthy (field outcome ''stack_modified'')
       \<and> rest = (ferr, frames) # rest' \<and> \<not> truthy ferr \<longrightarrow>
     handleCommand this messageObject w =
       Returns (w\<lparr>trace := trace w
                   @ [changelive,
                      FetchCallFrames,
                      SendResponse requestId Null
                        (Obj [(''callFrames'', orElse frames (Arr [])), (''result'', outcome)])],
                  replies := rest'\<rparr>))
  \<and> (\<forall>ferr frames rest'.
       \<not> truthy (field outcome ''stack_update_needs_step_in'')
       \<and> truthy (field outcome ''stack_modified'')
       \<and> rest = (ferr, frames) # rest' \<and> truthy ferr \<longrightarrow>
     handleCommand this messageObject w =
       Returns (w\<lparr>trace := trace w
                   @ [changelive,
                      FetchCallFrames,
                      SendLogToConsole ''error''
                        [Str ''Cannot update stack trace after a script changed: '', ferr],
                      SendResponse requestId Null
                        (Obj [(''callFrames'', Arr []), (''result'', outcome)])],
                  replies := rest'\<rparr>))
  \<and> (\<forall>cerr cresult rest'.
       truthy (field outcome ''stack_update_needs_step_in'')
       \<and> rest = (cerr, cresult) # rest' \<and> \<not> truthy cerr \<longrightarrow>
     handleCommand this messageObject w =
       Returns (w\<lparr>trace := trace w @ [changelive, stepIntoRequest],
                  replies := rest',
                  callbackForNextBreak := Some (StepIntoCallback completion response)\<rparr>))
  \<and> (\<forall>w' ferr frames rest' data.
       replies w' = (ferr, frames) # rest' \<and> \<not> truthy ferr \<longrightarrow>
     runBreakCallback (StepIntoCallback completion response) data w' =
       Returns (w'\<lparr>trace := trace w'
                   @ [FetchCallFrames,
                      SendResponse requestId Null
                        (Obj [(''callFrames'', orElse frames (Arr [])), (''result'', outcome)])],
                  replies := rest'\<rparr>))
  \<and> (\<forall>cerr cresult ferr frames rest'.
       truthy (field outcome ''stack_update_needs_step_in'')
       \<and> rest = (cerr, cresult) # (ferr, frames) # rest' \<and> truthy cerr \<and> \<not> truthy ferr \<longrightarrow>
     handleCommand this messageObject w =
       Returns (w\<lparr>trace := trace w
                   @ [changelive,
                      stepIntoRequest,
                      SendLogToConsole ''error''
                        [Str ''Cannot execute step-into after a script changed: '', cerr,
                         Str [CHR 0x0A],
                         Str ''Please perform step-into yourself from the GUI.''],
                      FetchCallFrames,
                      SendResponse requestId Null
                        (Obj [(''callFrames'', orElse frames (Arr [])), (''result'', outcome)])],
                  replies := rest',
                  callbackForNextBreak := Some (StepIntoCallback completion response)\<rparr>))"
proof -
  have obj: "response \<noteq> Undefined" "response \<noteq> Null"
    using assms(9,10) by (auto simp: field_def)
  let ?w1 = "w\<lparr>trace := trace w @ [changelive], replies := rest\<rparr>"
  have start: "handleCommand this messageObject w =
     getProp outcome ''stack_update_needs_step_in'' (\<lambda>needsStepIn.
        if truthy needsStepIn then stepIntoAndSendResponse completion response
        else
          getProp outcome ''stack_modified'' (\<lambda>stackModified.
            if truthy stackModified then sendResponseWithCallStack completion response
            else setScriptSource_sendResponse completion response Undefined)) ?w1"
    using handleCommand_Debugger [of c "''setScriptSource''" "setScriptSource c"
        messageObject runtimeAgent pageAgent w] assms(2-9,12,14,15) obj
    by (simp add: DebuggerAgent_setScriptSource setScriptSource_def getProp_def
        request_def asyncCall_def)
  have unchanged: "\<not> truthy (field outcome ''stack_update_needs_step_in'')
       \<Longrightarrow> \<not> truthy (field outcome ''stack_modified'') \<Longrightarrow>
     handleCommand this messageObject w =
       Returns (w\<lparr>trace := trace w
                   @ [changelive,
                      SendResponse requestId Null
                        (Obj [(''callFrames'', Arr []), (''result'', outcome)])],
                  replies := rest\<rparr>)"
    using start assms(1,9,10,11,14) obj
    by (simp add: getProp_def setScriptSource_sendResponse_truthy orElse_def world_update_order)
  have modified: "\<not> truthy (field outcome ''stack_update_needs_step_in'')
       \<Longrightarrow> truthy (field outcome ''stack_modified'')
       \<Longrightarrow> rest = (ferr, frames) # rest' \<Longrightarrow> \<not> truthy ferr \<Longrightarrow>
     handleCommand this messageObject w =
       Returns (w\<lparr>trace := trace w
                   @ [changelive,
                      FetchCallFrames,
                      SendResponse requestId Null
                        (Obj [(''callFrames'', orElse frames (Arr [])), (''result'', outcome)])],
                  replies := rest'\<rparr>)" for ferr frames rest'
    using start assms(1,9,10,11,14) obj
      sendResponseWithCallStack_fetched [of requestId response ?w1 ferr frames rest'
        "''Debugger.setScriptSource''"]
    by (simp add: getProp_def)
  have failed: "\<not> truthy (field outcome ''stack_update_needs_step_in'')
       \<Longrightarrow> truthy (field outcome ''stack_modified'')
       \<Longrightarrow> rest = (ferr, frames) # rest' \<Longrightarrow> truthy ferr \<Longrightarrow>
     handleCommand this messageObject w =
       Returns (w\<lparr>trace := trace w
                   @ [changelive,
                      FetchCallFrames,
                      SendLogToConsole ''error''
                        [Str ''Cannot update stack trace after a script changed: '', ferr],
                      SendResponse requestId Null
                        (Obj [(''callFrames'', Arr []), (''result'', outcome)])],
                  replies := rest'\<rparr>)" for ferr frames rest'
    using start assms(1,9,10,11,14) obj
      sendResponseWithCallStack_failed [of requestId response ?w1 ferr frames rest'
        "''Debugger.setScriptSource''"]
    by (simp add: getProp_def)
  have deferred: "truthy (field outcome ''stack_update_needs_step_in'')
       \<Longrightarrow> rest = (cerr, cresult) # rest' \<Longrightarrow> \<not> truthy cerr \<Longrightarrow>
     handleCommand this messageObject w =
       Returns (w\<lparr>trace := trace w @ [changelive, stepIntoRequest],
                  replies := rest',
                  callbackForNextBreak := Some (StepIntoCallback completion response)\<rparr>)"
    for cerr cresult rest'
    using start assms(10,11,13)
    by (simp add: getProp_def stepIntoAndSendResponse_def setCallbackForNextBreak_def
        andThen_def request_def asyncCall_def skip_def world_update_order)
  have fires: "replies w' = (ferr, frames) # rest' \<Longrightarrow> \<not> truthy ferr \<Longrightarrow>
     runBreakCallback (StepIntoCallback completion response) data w' =
       Returns (w'\<lparr>trace := trace w'
                   @ [FetchCallFrames,
                      SendResponse requestId Null
                        (Obj [(''callFrames'', orElse frames (Arr [])), (''result'', outcome)])],
                  replies := rest'\<rparr>)" for w' ferr frames rest' data
    using assms(1,9,14) obj
      sendResponseWithCallStack_fetched [of requestId response w' ferr frames rest'
        "''Debugger.setScriptSource''"]
    by simp
  have immediate: "truthy (field outcome ''stack_update_needs_step_in'')
       \<Longrightarrow> rest = (cerr, cresult) # (ferr, frames) # rest' \<Longrightarrow> truthy cerr \<Longrightarrow> \<not> truthy ferr \<Longrightarrow>
     handleCommand this messageObject w =
       Returns (w\<lparr>trace := trace w
                   @ [changelive,
                      stepIntoRequest,
                      SendLogToConsole ''error''
                        [Str ''Cannot execute step-into after a script changed: '', cerr,
                         Str [CHR 0x0A],
                         Str ''Please perform step-into yourself from the GUI.''],
                      FetchCallFrames,
                      SendResponse requestId Null
                        (Obj [(''callFrames'', orElse frames (Arr [])), (''result'', outcome)])],
                  replies := rest',
                  callbackForNextBreak := Some (StepIntoCallback completion response)\<rparr>)"
    for cerr cresult ferr frames rest'
  proof -
    assume a: "truthy (field outcome ''stack_update_needs_step_in'')"
      "rest = (cerr, cresult) # (ferr, frames) # rest'" "truthy cerr" "\<not> truthy ferr"
    let ?w2 = "w\<lparr>trace := trace w
                   @ [changelive,
                      stepIntoRequest,
                      SendLogToConsole ''error''
                        [Str ''Cannot execute step-into after a script changed: '', cerr,
                         Str [CHR 0x0A],
                         Str ''Please perform step-into yourself from the GUI.'']],
                  replies := (ferr, frames) # rest',
                  callbackForNextBreak := Some (StepIntoCallback completion response)\<rparr>"
    have "handleCommand this messageObject w = sendResponseWithCallStack completion response ?w2"
      using start assms(10,11,13) a
      by (simp add: getProp_def stepIntoAndSendResponse_def setCallbackForNextBreak_def
          andThen_def request_def asyncCall_def skip_def sendLogToConsole_def emit_def
          world_update_order)
    then show ?thesis
      using assms(1,9,14) obj a(4)
        sendResponseWithCallStack_fetched [of requestId response ?w2 ferr frames rest'
          "''Debugger.setScriptSource''"]
      by (simp add: world_update_order)
  qed
  show ?thesis
    using unchanged modified failed deferred fires immediate by blast
qed


theorem setScriptSource_follows_live_edit_outcome_witness:
  "handleCommand exampleHandler
      (Obj [(''id'', Num 3), (''method'', Str ''Debugger.setScriptSource''),
            (''params'', Obj [(''scriptId'', Str ''5''), (''scriptSource'', Str ''x'')])])
      (quietWorld\<lparr>replies := [(Null, Obj [(''result'', Obj [(''stack_modified'', Bool False)])])]\<rparr>)
    = Returns (quietWorld\<lparr>trace :=
        [Request ''changelive''
           (Obj [(''script_id'', Str ''5''), (''new_source'', Str ''x''),
                 (''preview_only'', Bool False)]),
         SendResponse (Num 3) Null
           (Obj [(''callFrames'', Arr []),
                 (''result'', Obj [(''stack_modified'', Bool False)])])]\<rparr>)
   \<and> handleCommand exampleHandler
      (Obj [(''id'', Num 3), (''method'', Str ''Debugger.setScriptSource''),
            (''params'', Obj [(''scriptId'', Str ''5''), (''scriptSource'', Str ''x'')])])
      (quietWorld\<lparr>replies := [(Null, Obj [(''result'', Obj [(''stack_modified'', Bool True)])]),
                              (Null, Arr [Str ''frame''])]\<rparr>)
    = Returns (quietWorld\<lparr>trace :=
        [Request ''changelive''
           (Obj [(''script_id'', Str ''5''), (''new_source'', Str ''x''),
                 (''preview_only'', Bool False)]),
         FetchCallFrames,
         SendResponse (Num 3) Null
           (Obj [(''callFrames'', Arr [Str ''frame'']),
                 (''result'', Obj [(''stack_modified'', Bool True)])])]\<rparr>)
   \<and> handleCommand exampleHandler
      (Obj [(''id'', Num 3), (''method'', Str ''Debugger.setScriptSource''),
            (''params'', Obj [(''scriptId'', Str ''5''), (''scriptSource'', Str ''x'')])])
      (quietWorld\<lparr>replies :=
         [(Null, Obj [(''result'', Obj [(''stack_update_needs_step_in'', Bool True)])]),
          (Null, Undefined)]\<rparr>)
    = Returns (quietWorld\<lparr>trace :=
        [Request ''changelive''
           (Obj [(''script_id'', Str ''5''), (''new_source'', Str ''x''),
                 (''preview_only'', Bool False)]),
         Request ''continue'' (Obj [(''stepAction'', Str ''in'')])],
        callbackForNextBreak :=
          Some (StepIntoCallback (MethodResult (Num 3) ''Debugger.setScriptSource'')
                  (Obj [(''result'', Obj [(''stack_update_needs_step_in'', Bool True)])]))\<rparr>)
   \<and> runBreakCallback
        (StepIntoCallback (MethodResult (Num 3) ''Debugger.setScriptSource'')
           (Obj [(''result'', Obj [(''stack_update_needs_step_in'', Bool True)])]))
        Undefined
        (quietWorld\<lparr>replies := [(Null, Arr [Str ''frame''])]\<rparr>)
    = Returns (quietWorld\<lparr>trace :=
        [FetchCallFrames,
         SendResponse (Num 3) Null
           (Obj [(''callFrames'', Arr [Str ''frame'']),
                 (''result'', Obj [(''stack_update_needs_step_in'', Bool True)])])]\<rparr>)"
proof -
  let ?m = "Obj [(''id'', Num 3), (''method'', Str ''Debugger.setScriptSource''),
            (''params'', Obj [(''scriptId'', Str ''5''), (''scriptSource'', Str ''x'')])]"
  let ?p = "Obj [(''scriptId'', Str ''5''), (''scriptSource'', Str ''x'')]"
  let ?cl = "Request ''changelive''
           (Obj [(''script_id'', Str ''5''), (''new_source'', Str ''x''),
                 (''preview_only'', Bool False)])"
  let ?si = "Request ''continue'' (Obj [(''stepAction'', Str ''in'')])"
  let ?d = "MethodResult (Num 3) ''Debugger.setScriptSource''"
  note th = setScriptSource_follows_live_edit_outcome
    [where requestId = "Num 3" and messageObject = ?m and params = ?p and err = Null
       and c = exampleConvert and runtimeAgent = Map.empty and pageAgent = Map.empty
       and changelive = ?cl and stepIntoRequest = ?si and completion = ?d and this = exampleHandler]
  let ?o1 = "Obj [(''stack_modified'', Bool False)]"
  let ?o2 = "Obj [(''stack_modified'', Bool True)]"
  let ?o3 = "Obj [(''stack_update_needs_step_in'', Bool True)]"
  note t1 = th [where w = "quietWorld\<lparr>replies := [(Null, Obj [(''result'', ?o1)])]\<rparr>"
      and response = "Obj [(''result'', ?o1)]" and rest = "[]" and outcome = ?o1]
  note t2 = th [where w = "quietWorld\<lparr>replies := [(Null, Obj [(''result'', ?o2)]),
                              (Null, Arr [Str ''frame''])]\<rparr>"
      and response = "Obj [(''result'', ?o2)]" and rest = "[(Null, Arr [Str ''frame''])]"
      and outcome = ?o2]
  note t3 = th [where w = "quietWorld\<lparr>replies := [(Null, Obj [(''result'', ?o3)]),
                              (Null, Undefined)]\<rparr>"
      and response = "Obj [(''result'', ?o3)]" and rest = "[(Null, Undefined)]"
      and outcome = ?o3]
  have a: "handleCommand exampleHandler ?m
      (quietWorld\<lparr>replies := [(Null, Obj [(''result'', ?o1)])]\<rparr>)
    = Returns (quietWorld\<lparr>trace :=
        [?cl, SendResponse (Num 3) Null (Obj [(''callFrames'', Arr []), (''result'', ?o1)])]\<rparr>)"
    using t1 by (simp add: field_def exampleHandler_def exampleConvert_def quietWorld_def)
  have b: "handleCommand exampleHandler ?m
      (quietWorld\<lparr>replies := [(Null, Obj [(''result'', ?o2)]), (Null, Arr [Str ''frame''])]\<rparr>)
    = Returns (quietWorld\<lparr>trace :=
        [?cl, FetchCallFrames,
         SendResponse (Num 3) Null
           (Obj [(''callFrames'', Arr [Str ''frame'']), (''result'', ?o2)])]\<rparr>)"
    using t2 by (simp add: field_def exampleHandler_def exampleConvert_def quietWorld_def
        orElse_def)
  have c: "handleCommand exampleHandler ?m
      (quietWorld\<lparr>replies := [(Null, Obj [(''result'', ?o3)]), (Null, Undefined)]\<rparr>)
    = Returns (quietWorld\<lparr>trace := [?cl, ?si],
        callbackForNextBreak := Some (StepIntoCallback ?d (Obj [(''result'', ?o3)]))\<rparr>)"
    using t3 by (simp add: field_def exampleHandler_def exampleConvert_def quietWorld_def)
  have fires: "\<forall>w' ferr frames rest' data.
       replies w' = (ferr, frames) # rest' \<and> \<not> truthy ferr \<longrightarrow>
     runBreakCallback (StepIntoCallback ?d (Obj [(''result'', ?o3)])) data w' =
       Returns (w'\<lparr>trace := trace w'
                   @ [FetchCallFrames,
                      SendResponse (Num 3) Null
                        (Obj [(''callFrames'', orElse frames (Arr [])), (''result'', ?o3)])],
                  replies := rest'\<rparr>)"
    using t3 by (auto simp add: field_def exampleHandler_def exampleConvert_def quietWorld_def)
  have d: "runBreakCallback (StepIntoCallback ?d (Obj [(''result'', ?o3)])) Undefined
        (quietWorld\<lparr>replies := [(Null, Arr [Str ''frame''])]\<rparr>)
    = Returns (quietWorld\<lparr>trace :=
        [FetchCallFrames,
         SendResponse (Num 3) Null
           (Obj [(''callFrames'', Arr [Str ''frame'']), (''result'', ?o3)])]\<rparr>)"
    using fires [rule_format, of "quietWorld\<lparr>replies := [(Null, Arr [Str ''frame''])]\<rparr>"
        Null "Arr [Str ''frame'']" "[]" Undefined]
    by (simp add: quietWorld_def orElse_def)
  show ?thesis by (intro conjI) (rule a, rule b, rule c, rule d)
qed

end
